theory Spec2Isabelle
  imports Complex_Main "HOL-Library.AList"
begin

section \<open>Python values\<close>

text \<open>
  The state document is what \<^verbatim>\<open>json.load\<close> returns: \<^verbatim>\<open>None\<close>, booleans, integers,
  floats, strings, lists and dicts with string keys. A dict is kept as the list of its
  items in insertion order; its keys are distinct, and a lookup takes the first item of a
  key. A float is kept as the rational number it denotes, which is what Python's
  comparisons and hashes go by; NaN and the infinities are not represented.
\<close>

datatype json =
    JNull
  | JBool bool
  | JInt int
  | JFloat rat
  | JStr string
  | JArr "json list"
  | JObj "(string \<times> json) list"

text \<open>
  The exceptions the program can raise. \<open>StoreFault\<close> is not a Python exception: the
  model answers it when an address of the object store holds no object of the class
  that the program keeps there. No store that the program builds has such an address
  (\<open>wf_store\<close> and \<open>build_no_store_fault\<close> below).
\<close>

datatype error = KeyError | TypeError | IndexError | AttributeError | StoreFault

definition bind_result :: "error + 'a \<Rightarrow> ('a \<Rightarrow> error + 'b) \<Rightarrow> error + 'b" where
  "bind_result m f = (case m of Inl e \<Rightarrow> Inl e | Inr x \<Rightarrow> f x)"

text \<open>
  Dict keys. Python compares keys with \<^verbatim>\<open>==\<close> after hashing: \<^verbatim>\<open>True == 1 == 1.0\<close>,
  so a boolean, an integer and a float of the same value are one key. Lists and dicts are
  unhashable.
\<close>

datatype key = KNone | KNum rat | KStr string

fun py_hash :: "json \<Rightarrow> error + key" where
  "py_hash JNull = Inr KNone"
| "py_hash (JBool b) = Inr (KNum (if b then 1 else 0))"
| "py_hash (JInt n) = Inr (KNum (of_int n))"
| "py_hash (JFloat q) = Inr (KNum q)"
| "py_hash (JStr s) = Inr (KStr s)"
| "py_hash (JArr xs) = Inl TypeError"
| "py_hash (JObj kvs) = Inl TypeError"

text \<open>Truth value of \<^verbatim>\<open>if x:\<close>.\<close>

fun truthy :: "json \<Rightarrow> bool" where
  "truthy JNull = False"
| "truthy (JBool b) = b"
| "truthy (JInt n) = (n \<noteq> 0)"
| "truthy (JFloat q) = (q \<noteq> 0)"
| "truthy (JStr s) = (s \<noteq> [])"
| "truthy (JArr xs) = (xs \<noteq> [])"
| "truthy (JObj kvs) = (kvs \<noteq> [])"

text \<open>\<^verbatim>\<open>x['k']\<close> with a string literal \<^verbatim>\<open>'k'\<close>.\<close>

fun getitem_str :: "json \<Rightarrow> string \<Rightarrow> error + json" where
  "getitem_str (JObj kvs) k = (case map_of kvs k of None \<Rightarrow> Inl KeyError | Some v \<Rightarrow> Inr v)"
| "getitem_str x k = Inl TypeError"

text \<open>\<^verbatim>\<open>x[0]\<close>. A dict from JSON has string keys only, so \<^verbatim>\<open>d[0]\<close> is a KeyError.\<close>

fun getitem_0 :: "json \<Rightarrow> error + json" where
  "getitem_0 (JArr []) = Inl IndexError"
| "getitem_0 (JArr (x # xs)) = Inr x"
| "getitem_0 (JStr []) = Inl IndexError"
| "getitem_0 (JStr (c # cs)) = Inr (JStr [c])"
| "getitem_0 (JObj kvs) = Inl KeyError"
| "getitem_0 x = Inl TypeError"

text \<open>\<^verbatim>\<open>len(x)\<close>.\<close>

fun py_len :: "json \<Rightarrow> error + nat" where
  "py_len (JArr xs) = Inr (length xs)"
| "py_len (JStr s) = Inr (length s)"
| "py_len (JObj kvs) = Inr (length kvs)"
| "py_len x = Inl TypeError"

fun substr :: "string \<Rightarrow> string \<Rightarrow> bool" where
  "substr p [] = (p = [])"
| "substr p (c # cs) = (take (length p) (c # cs) = p \<or> substr p cs)"

text \<open>\<^verbatim>\<open>'k' in x\<close> with a string literal \<^verbatim>\<open>'k'\<close>.\<close>

fun contains_str :: "string \<Rightarrow> json \<Rightarrow> error + bool" where
  "contains_str k (JObj kvs) = Inr (k \<in> fst ` set kvs)"
| "contains_str k (JArr xs) = Inr (JStr k \<in> set xs)"
| "contains_str k (JStr s) = Inr (substr k s)"
| "contains_str k x = Inl TypeError"

text \<open>The items that \<^verbatim>\<open>for y in x\<close> visits.\<close>

fun py_iter :: "json \<Rightarrow> error + json list" where
  "py_iter (JArr xs) = Inr xs"
| "py_iter (JStr s) = Inr (map (\<lambda>c. JStr [c]) s)"
| "py_iter (JObj kvs) = Inr (map (\<lambda>kv. JStr (fst kv)) kvs)"
| "py_iter x = Inl TypeError"

section \<open>Resource records and the object store\<close>

text \<open>
  Objects live in a store and are named by their address, since \<^verbatim>\<open>lookup\<close> mutates
  objects that the groups and other objects refer to. An attribute that
  \<^verbatim>\<open>__init__\<close> may leave unset (\<^verbatim>\<open>nic_id\<close>, \<^verbatim>\<open>nic\<close>, \<^verbatim>\<open>public_ip_id\<close>) is an option,
  \<open>None\<close> meaning that reading it raises AttributeError. \<^verbatim>\<open>user\<close> holds Python's
  \<^verbatim>\<open>None\<close> as \<open>JNull\<close>; \<^verbatim>\<open>public_ip\<close> is Python's \<^verbatim>\<open>None\<close> or a reference.
\<close>

type_synonym addr = nat

record azure_resource =
  res_id :: json
  res_name :: json

record azure_vm = azure_resource +
  nic_id :: "json option"
  user :: json
  nic :: "addr option"

record azure_ip = azure_resource +
  ip :: json

record azure_nic = azure_resource +
  private_ip :: json
  public_ip :: "addr option"
  public_ip_id :: "json option"

datatype pyobj = VM azure_vm | IP azure_ip | NIC azure_nic

type_synonym heap = "pyobj list"

definition heap_get :: "heap \<Rightarrow> addr \<Rightarrow> pyobj option" where
  "heap_get h a = (if a < length h then Some (h ! a) else None)"

fun obj_id :: "pyobj \<Rightarrow> json" where
  "obj_id (VM v) = res_id v"
| "obj_id (IP i) = res_id i"
| "obj_id (NIC n) = res_id n"

text \<open>A group maps a resource id to an object; \<^verbatim>\<open>resources\<close> maps an alias to its group.\<close>

type_synonym group = "(key \<times> addr) list"
type_synonym resources = "(string \<times> group) list"

subsection \<open>Constructors\<close>

definition AzureResource_init :: "json \<Rightarrow> error + azure_resource" where
  "AzureResource_init resource =
     bind_result (getitem_str resource ''attributes'') (\<lambda>attr.
     bind_result (getitem_str attr ''id'') (\<lambda>i.
     bind_result (getitem_str attr ''name'') (\<lambda>n.
     Inr \<lparr>res_id = i, res_name = n\<rparr>)))"

definition AzureVM_init :: "json \<Rightarrow> error + azure_vm" where
  "AzureVM_init resource =
     bind_result (AzureResource_init resource) (\<lambda>base.
     bind_result (getitem_str resource ''attributes'') (\<lambda>attr.
     bind_result (getitem_str attr ''network_interface_ids'') (\<lambda>ids.
     bind_result (py_len ids) (\<lambda>n.
     bind_result (if n > 0 then bind_result (getitem_0 ids) (\<lambda>x. Inr (Some x)) else Inr None)
       (\<lambda>the_nic_id.
     bind_result (getitem_str attr ''os_profile'') (\<lambda>os_profile.
     bind_result
       (if truthy os_profile
        then bind_result (getitem_0 os_profile) (\<lambda>p. getitem_str p ''admin_username'')
        else Inr JNull)
       (\<lambda>admin.
     Inr \<lparr>res_id = res_id base, res_name = res_name base,
          nic_id = the_nic_id,
          user = (if truthy admin then admin else JNull),
          nic = None\<rparr>)))))))"

definition AzureIP_init :: "json \<Rightarrow> error + azure_ip" where
  "AzureIP_init resource =
     bind_result (AzureResource_init resource) (\<lambda>base.
     bind_result (getitem_str resource ''attributes'') (\<lambda>attr.
     bind_result (getitem_str attr ''ip_address'') (\<lambda>a.
     Inr \<lparr>res_id = res_id base, res_name = res_name base, ip = a\<rparr>)))"

definition AzureNIC_init :: "json \<Rightarrow> error + azure_nic" where
  "AzureNIC_init resource =
     bind_result (AzureResource_init resource) (\<lambda>base.
     bind_result (getitem_str resource ''attributes'') (\<lambda>attr.
     bind_result (getitem_str attr ''private_ip_address'') (\<lambda>priv.
     bind_result (getitem_str attr ''ip_configuration'') (\<lambda>conf.
     bind_result
       (if truthy conf
        then bind_result (getitem_0 conf) (\<lambda>c.
             bind_result (getitem_str c ''public_ip_address_id'') (\<lambda>x. Inr (Some x)))
        else Inr None)
       (\<lambda>the_public_ip_id.
     Inr \<lparr>res_id = res_id base, res_name = res_name base,
          private_ip = priv, public_ip = None, public_ip_id = the_public_ip_id\<rparr>)))))"

subsection \<open>Reference resolution\<close>

text \<open>
  \<^verbatim>\<open>lookup\<close> returns nothing and mutates objects; the model returns the store it leaves
  and the exception it raised, if any. The store is returned in both cases, because
  \<^verbatim>\<open>AzureVM.lookup\<close> has already set \<^verbatim>\<open>self.nic\<close> when \<^verbatim>\<open>self.nic.lookup\<close> raises.
\<close>

definition AzureNIC_lookup :: "resources \<Rightarrow> heap \<Rightarrow> addr \<Rightarrow> heap \<times> error option" where
  "AzureNIC_lookup resources h self =
     (case heap_get h self of
        Some (NIC n) \<Rightarrow>
          (case map_of resources ''public_ip'' of
             None \<Rightarrow> (h, Some KeyError)
           | Some ips \<Rightarrow>
               (case public_ip_id n of
                  None \<Rightarrow> (h, Some AttributeError)
                | Some pid \<Rightarrow>
                    (case py_hash pid of
                       Inl e \<Rightarrow> (h, Some e)
                     | Inr k \<Rightarrow>
                         (case map_of ips k of
                            None \<Rightarrow> (h, None)
                          | Some p \<Rightarrow> (h[self := NIC (n\<lparr>public_ip := Some p\<rparr>)], None)))))
      | _ \<Rightarrow> (h, Some StoreFault))"

definition AzureVM_lookup :: "resources \<Rightarrow> heap \<Rightarrow> addr \<Rightarrow> heap \<times> error option" where
  "AzureVM_lookup resources h self =
     (case heap_get h self of
        Some (VM v) \<Rightarrow>
          (case map_of resources ''nics'' of
             None \<Rightarrow> (h, Some KeyError)
           | Some nics \<Rightarrow>
               (case nic_id v of
                  None \<Rightarrow> (h, Some AttributeError)
                | Some nid \<Rightarrow>
                    (case py_hash nid of
                       Inl e \<Rightarrow> (h, Some e)
                     | Inr k \<Rightarrow>
                         (case map_of nics k of
                            None \<Rightarrow> (h, None)
                          | Some n \<Rightarrow>
                              AzureNIC_lookup resources (h[self := VM (v\<lparr>nic := Some n\<rparr>)]) n))))
      | _ \<Rightarrow> (h, Some StoreFault))"

section \<open>Inventory\<close>

datatype restype = AzureVM | AzureIP | AzureNIC

definition resource_types :: "(string \<times> (string \<times> restype)) list" where
  "resource_types =
     [(''azurerm_virtual_machine'', (''hosts'', AzureVM)),
      (''azurerm_public_ip'', (''public_ip'', AzureIP)),
      (''azurerm_network_interface'', (''nics'', AzureNIC))]"

subsection \<open>Extraction\<close>

text \<open>\<^verbatim>\<open>restype(instance)\<close>: the constructor of the class in the type table.\<close>

fun construct :: "restype \<Rightarrow> json \<Rightarrow> error + pyobj" where
  "construct AzureVM instance = bind_result (AzureVM_init instance) (\<lambda>v. Inr (VM v))"
| "construct AzureIP instance = bind_result (AzureIP_init instance) (\<lambda>i. Inr (IP i))"
| "construct AzureNIC instance = bind_result (AzureNIC_init instance) (\<lambda>n. Inr (NIC n))"

text \<open>
  The loop of \<^verbatim>\<open>add_resources_to_group\<close>. A new object gets the next free address;
  \<^verbatim>\<open>group[resource.id] = resource\<close> hashes the id and keeps the position of a key that
  is already there.
\<close>

fun add_instances :: "restype \<Rightarrow> json list \<Rightarrow> group \<Rightarrow> heap \<Rightarrow> error + group \<times> heap" where
  "add_instances c [] g h = Inr (g, h)"
| "add_instances c (instance # rest) g h =
     bind_result (construct c instance) (\<lambda>resource.
     bind_result (py_hash (obj_id resource)) (\<lambda>k.
     add_instances c rest (AList.update k (length h) g) (h @ [resource])))"

definition add_resources_to_group ::
  "group \<Rightarrow> json \<Rightarrow> restype \<Rightarrow> heap \<Rightarrow> error + group \<times> heap" where
  "add_resources_to_group g res c h =
     bind_result (contains_str ''instances'' res) (\<lambda>present.
     if present
     then bind_result (getitem_str res ''instances'') (\<lambda>instances.
          bind_result (py_iter instances) (\<lambda>xs. add_instances c xs g h))
     else Inr (g, h))"

definition update_resource_group ::
  "string \<times> restype \<Rightarrow> resources \<Rightarrow> json \<Rightarrow> heap \<Rightarrow> error + resources \<times> heap" where
  "update_resource_group typedef resources res h =
     (let name = fst typedef;
          g = (case map_of resources name of Some g0 \<Rightarrow> g0 | None \<Rightarrow> [])
      in bind_result (add_resources_to_group g res (snd typedef) h) (\<lambda>(g', h').
         Inr (AList.update name g' resources, h')))"

text \<open>\<^verbatim>\<open>res['type'] in cls.resource_types\<close> and the table entry, if it is there.\<close>

definition type_entry :: "key \<Rightarrow> (string \<times> restype) option" where
  "type_entry k = (case k of KStr s \<Rightarrow> map_of resource_types s | _ \<Rightarrow> None)"

fun extract_loop :: "json list \<Rightarrow> resources \<Rightarrow> heap \<Rightarrow> error + resources \<times> heap" where
  "extract_loop [] resources h = Inr (resources, h)"
| "extract_loop (res # rest) resources h =
     bind_result (getitem_str res ''type'') (\<lambda>t.
     bind_result (py_hash t) (\<lambda>k.
     case type_entry k of
       None \<Rightarrow> extract_loop rest resources h
     | Some typedef \<Rightarrow>
         bind_result (update_resource_group typedef resources res h) (\<lambda>(resources', h').
         extract_loop rest resources' h')))"

definition extract_resources :: "json \<Rightarrow> heap \<Rightarrow> error + resources \<times> heap" where
  "extract_resources state h =
     bind_result (contains_str ''resources'' state) (\<lambda>present.
     if present
     then bind_result (getitem_str state ''resources'') (\<lambda>rs.
          bind_result (py_iter rs) (\<lambda>xs. extract_loop xs [] h))
     else Inr ([], h))"

subsection \<open>Building the inventory\<close>

text \<open>
  The output document: \<^verbatim>\<open>_meta.hostvars\<close> is a dict from host name to the host's
  variables, \<^verbatim>\<open>all.hosts\<close> a list of host names.
\<close>

record inventory_doc =
  meta_hostvars :: "(key \<times> (string \<times> json) list) list"
  all_hosts :: "json list"

definition empty_inventory :: inventory_doc where
  "empty_inventory = \<lparr>meta_hostvars = [], all_hosts = []\<rparr>"

text \<open>Lines 140 to 143: the value stored under \<^verbatim>\<open>ansible_host\<close>.\<close>

definition ansible_host :: "bool \<Rightarrow> heap \<Rightarrow> azure_vm \<Rightarrow> error + json" where
  "ansible_host use_private_ip h v =
     (case nic v of
        None \<Rightarrow> Inl AttributeError
      | Some n \<Rightarrow>
          (case heap_get h n of
             Some (NIC nc) \<Rightarrow>
               (case public_ip nc of
                  None \<Rightarrow> Inr (private_ip nc)
                | Some p \<Rightarrow>
                    if \<not> use_private_ip
                    then (case heap_get h p of
                            Some (IP i) \<Rightarrow> Inr (ip i)
                          | _ \<Rightarrow> Inl StoreFault)
                    else Inr (private_ip nc))
           | _ \<Rightarrow> Inl StoreFault))"

definition hostvars_of :: "json \<Rightarrow> azure_vm \<Rightarrow> (string \<times> json) list" where
  "hostvars_of a v =
     [(''ansible_host'', a)] @ (if truthy (user v) then [(''ansible_user'', user v)] else [])"

definition add_host_to_inventory ::
  "resources \<Rightarrow> bool \<Rightarrow> inventory_doc \<Rightarrow> heap \<Rightarrow> addr \<Rightarrow> (error + inventory_doc) \<times> heap" where
  "add_host_to_inventory resources use_private_ip doc h host =
     (case AzureVM_lookup resources h host of
        (h', Some e) \<Rightarrow> (Inl e, h')
      | (h', None) \<Rightarrow>
          (case heap_get h' host of
             Some (VM v) \<Rightarrow>
               (bind_result (py_hash (res_name v)) (\<lambda>k.
                bind_result (ansible_host use_private_ip h' v) (\<lambda>a.
                Inr (doc\<lparr>meta_hostvars := AList.update k (hostvars_of a v) (meta_hostvars doc),
                         all_hosts := all_hosts doc @ [res_name v]\<rparr>))), h')
           | _ \<Rightarrow> (Inl StoreFault, h')))"

text \<open>The loop of \<^verbatim>\<open>inventory\<close> over the keys of the hosts group.\<close>

fun add_hosts ::
  "resources \<Rightarrow> bool \<Rightarrow> group \<Rightarrow> key list \<Rightarrow> inventory_doc \<Rightarrow> heap
   \<Rightarrow> (error + inventory_doc) \<times> heap" where
  "add_hosts resources u g [] doc h = (Inr doc, h)"
| "add_hosts resources u g (host_id # ks) doc h =
     (case map_of g host_id of
        None \<Rightarrow> (Inl KeyError, h)
      | Some host \<Rightarrow>
          (case add_host_to_inventory resources u doc h host of
             (Inl e, h') \<Rightarrow> (Inl e, h')
           | (Inr doc', h') \<Rightarrow> add_hosts resources u g ks doc' h'))"

definition inventory :: "resources \<Rightarrow> bool \<Rightarrow> heap \<Rightarrow> (error + inventory_doc) \<times> heap" where
  "inventory resources use_private_ip h =
     (case map_of resources ''hosts'' of
        None \<Rightarrow> (Inr empty_inventory, h)
      | Some g \<Rightarrow> add_hosts resources use_private_ip g (map fst g) empty_inventory h)"

text \<open>\<^verbatim>\<open>Inventory(state, use_private_ip).inventory()\<close>, starting from an empty store.\<close>

definition build :: "json \<Rightarrow> bool \<Rightarrow> error + inventory_doc" where
  "build state use_private_ip =
     bind_result (extract_resources state []) (\<lambda>(resources, h).
     fst (inventory resources use_private_ip h))"

section \<open>Well-formed stores\<close>

text \<open>
  The type table sends every alias to one class, so a group filled by
  \<^verbatim>\<open>extract_resources\<close> holds objects of one class only: \<open>wf_store\<close>. An object is
  unresolved while the reference that \<^verbatim>\<open>lookup\<close> attaches is not set, as
  \<^verbatim>\<open>__init__\<close> leaves it.
\<close>

fun class_of :: "pyobj \<Rightarrow> restype" where
  "class_of (VM v) = AzureVM"
| "class_of (IP i) = AzureIP"
| "class_of (NIC n) = AzureNIC"

fun unresolved :: "pyobj \<Rightarrow> bool" where
  "unresolved (VM v) = (nic v = None)"
| "unresolved (IP i) = True"
| "unresolved (NIC n) = (public_ip n = None)"

definition holds :: "heap \<Rightarrow> restype \<Rightarrow> addr \<Rightarrow> bool" where
  "holds h c a = (case heap_get h a of None \<Rightarrow> False | Some obj \<Rightarrow> class_of obj = c)"

definition alias_class :: "string \<Rightarrow> restype option" where
  "alias_class name = map_of (map snd resource_types) name"

definition wf_group :: "heap \<Rightarrow> restype \<Rightarrow> group \<Rightarrow> bool" where
  "wf_group h c g = list_all (\<lambda>ka. holds h c (snd ka)) g"

definition wf_store :: "resources \<Rightarrow> heap \<Rightarrow> bool" where
  "wf_store resources h =
     list_all (\<lambda>ng. case alias_class (fst ng) of
                       None \<Rightarrow> False
                     | Some c \<Rightarrow> wf_group h c (snd ng)) resources"

text \<open>
  The object that \<^verbatim>\<open>lookup\<close> attaches, when it attaches one: \<^verbatim>\<open>nics[self.nic_id]\<close>
  for a VM and \<^verbatim>\<open>ips[self.public_ip_id]\<close> for a NIC.
\<close>

definition group_target :: "resources \<Rightarrow> string \<Rightarrow> json option \<Rightarrow> addr option" where
  "group_target resources name ref =
     (case map_of resources name of
        None \<Rightarrow> None
      | Some g \<Rightarrow>
          (case ref of
             None \<Rightarrow> None
           | Some j \<Rightarrow> (case py_hash j of Inl e \<Rightarrow> None | Inr k \<Rightarrow> map_of g k)))"

text \<open>The exception of the membership test in \<^verbatim>\<open>lookup\<close>, when it raises one.\<close>

definition lookup_error :: "resources \<Rightarrow> string \<Rightarrow> json option \<Rightarrow> error option" where
  "lookup_error resources name ref =
     (case map_of resources name of
        None \<Rightarrow> Some KeyError
      | Some g \<Rightarrow>
          (case ref of
             None \<Rightarrow> Some AttributeError
           | Some j \<Rightarrow> (case py_hash j of Inl e \<Rightarrow> Some e | Inr k \<Rightarrow> None)))"

text \<open>
  A store is consistent with the groups when every reference that is set is the one
  \<^verbatim>\<open>lookup\<close> would attach. \<open>advanced\<close> relates a store to a later one in which
  some unset references have been attached.
\<close>

fun consistent_obj :: "resources \<Rightarrow> pyobj \<Rightarrow> bool" where
  "consistent_obj r (VM v) = (nic v = None \<or> nic v = group_target r ''nics'' (nic_id v))"
| "consistent_obj r (IP i) = True"
| "consistent_obj r (NIC n) =
     (public_ip n = None \<or> public_ip n = group_target r ''public_ip'' (public_ip_id n))"

definition consistent :: "resources \<Rightarrow> heap \<Rightarrow> bool" where
  "consistent r h = list_all (consistent_obj r) h"

fun adv_obj :: "resources \<Rightarrow> pyobj \<Rightarrow> pyobj \<Rightarrow> bool" where
  "adv_obj r (VM v) (VM w) =
     (w = v \<or> nic v = None \<and> w = v\<lparr>nic := group_target r ''nics'' (nic_id v)\<rparr>)"
| "adv_obj r (IP i) (IP j) = (j = i)"
| "adv_obj r (NIC n) (NIC m) =
     (m = n \<or> public_ip n = None
        \<and> m = n\<lparr>public_ip := group_target r ''public_ip'' (public_ip_id n)\<rparr>)"
| "adv_obj r x y = False"

definition advanced :: "resources \<Rightarrow> heap \<Rightarrow> heap \<Rightarrow> bool" where
  "advanced r h h' = list_all2 (adv_obj r) h h'"

text \<open>
  Two objects that differ at most in the reference that \<^verbatim>\<open>lookup\<close> attaches, and the
  NIC attached to the VM at an address.
\<close>

fun same_but_ref :: "pyobj \<Rightarrow> pyobj \<Rightarrow> bool" where
  "same_but_ref (VM v) (VM w) = (w = v\<lparr>nic := nic w\<rparr>)"
| "same_but_ref (IP i) (IP j) = (j = i)"
| "same_but_ref (NIC n) (NIC m) = (m = n\<lparr>public_ip := public_ip m\<rparr>)"
| "same_but_ref x y = False"

definition nic_of :: "heap \<Rightarrow> addr \<Rightarrow> addr option" where
  "nic_of h a = (case heap_get h a of Some (VM v) \<Rightarrow> nic v | _ \<Rightarrow> None)"

text \<open>
  The entry that \<^verbatim>\<open>add_host_to_inventory\<close> writes for the VM at an address, read from one
  store: its name, the key of its name and its host variables; and the entries of the
  hosts group in iteration order.
\<close>

definition host_entry :: "bool \<Rightarrow> heap \<Rightarrow> addr \<Rightarrow> (json \<times> key \<times> (string \<times> json) list) option" where
  "host_entry u h a =
     (case heap_get h a of
        Some (VM v) \<Rightarrow>
          (case py_hash (res_name v) of
             Inl e \<Rightarrow> None
           | Inr k \<Rightarrow>
               (case ansible_host u h v of
                  Inl e \<Rightarrow> None
                | Inr x \<Rightarrow> Some (res_name v, k, hostvars_of x v)))
      | _ \<Rightarrow> None)"

definition hosts_group :: "resources \<Rightarrow> group" where
  "hosts_group r = (case map_of r ''hosts'' of None \<Rightarrow> [] | Some g \<Rightarrow> g)"

definition host_entries ::
  "resources \<Rightarrow> bool \<Rightarrow> heap \<Rightarrow> (json \<times> key \<times> (string \<times> json) list) option list" where
  "host_entries r u h =
     map (\<lambda>k. case map_of (hosts_group r) k of None \<Rightarrow> None | Some a \<Rightarrow> host_entry u h a)
       (map fst (hosts_group r))"

section \<open>Example documents\<close>

text \<open>The scenario of the specification: one VM, its NIC and the NIC's public IP.\<close>

definition ex_vm_instance :: json where
  "ex_vm_instance = JObj [(''attributes'', JObj
     [(''id'', JStr ''v1''), (''name'', JStr ''web1''),
      (''network_interface_ids'', JArr [JStr ''n1'']), (''os_profile'', JArr [])])]"

definition ex_nic_instance :: json where
  "ex_nic_instance = JObj [(''attributes'', JObj
     [(''id'', JStr ''n1''), (''name'', JStr ''nic1''),
      (''private_ip_address'', JStr ''10.0.0.5''),
      (''ip_configuration'', JArr [JObj [(''public_ip_address_id'', JStr ''p1'')]])])]"

definition ex_ip_instance :: json where
  "ex_ip_instance = JObj [(''attributes'', JObj
     [(''id'', JStr ''p1''), (''name'', JStr ''ip1''), (''ip_address'', JStr ''20.1.1.1'')])]"

definition ex_state :: json where
  "ex_state = JObj [(''resources'', JArr
     [JObj [(''type'', JStr ''azurerm_virtual_machine''), (''instances'', JArr [ex_vm_instance])],
      JObj [(''type'', JStr ''azurerm_network_interface''), (''instances'', JArr [ex_nic_instance])],
      JObj [(''type'', JStr ''azurerm_public_ip''), (''instances'', JArr [ex_ip_instance])]])]"

definition ex_state_vm_only :: json where
  "ex_state_vm_only = JObj [(''resources'', JArr
     [JObj [(''type'', JStr ''azurerm_virtual_machine''), (''instances'', JArr [ex_vm_instance])]])]"

definition ex_vm :: azure_vm where
  "ex_vm = \<lparr>res_id = JStr ''v1'', res_name = JStr ''web1'', nic_id = Some (JStr ''n1''),
            user = JNull, nic = None\<rparr>"

definition ex_nic :: azure_nic where
  "ex_nic = \<lparr>res_id = JStr ''n1'', res_name = JStr ''nic1'', private_ip = JStr ''10.0.0.5'',
             public_ip = None, public_ip_id = Some (JStr ''p1'')\<rparr>"

definition ex_ip :: azure_ip where
  "ex_ip = \<lparr>res_id = JStr ''p1'', res_name = JStr ''ip1'', ip = JStr ''20.1.1.1''\<rparr>"

definition ex_resources :: resources where
  "ex_resources = [(''hosts'', [(KStr ''v1'', 0)]), (''nics'', [(KStr ''n1'', 1)]),
                   (''public_ip'', [(KStr ''p1'', 2)])]"

definition ex_heap :: heap where
  "ex_heap = [VM ex_vm, NIC ex_nic, IP ex_ip]"

definition ex_heap_resolved :: heap where
  "ex_heap_resolved = [VM (ex_vm\<lparr>nic := Some 1\<rparr>), NIC (ex_nic\<lparr>public_ip := Some 2\<rparr>), IP ex_ip]"

definition ex_admin_instance :: json where
  "ex_admin_instance = JObj [(''attributes'', JObj
     [(''id'', JStr ''v2''), (''name'', JStr ''db1''),
      (''network_interface_ids'', JArr [JStr ''n1'']),
      (''os_profile'', JArr [JObj [(''admin_username'', JStr ''azureuser'')]])])]"

definition ex_admin_vm :: azure_vm where
  "ex_admin_vm = \<lparr>res_id = JStr ''v2'', res_name = JStr ''db1'', nic_id = Some (JStr ''n1''),
                  user = JStr ''azureuser'', nic = None\<rparr>"

text \<open>Two VMs with one name, and records without references.\<close>

definition ex_dup_instance :: json where
  "ex_dup_instance = JObj [(''attributes'', JObj
     [(''id'', JStr ''v2''), (''name'', JStr ''web1''),
      (''network_interface_ids'', JArr [JStr ''n1'']),
      (''os_profile'', JArr [JObj [(''admin_username'', JStr ''azureuser'')]])])]"

definition ex_state_dup :: json where
  "ex_state_dup = JObj [(''resources'', JArr
     [JObj [(''type'', JStr ''azurerm_virtual_machine''),
            (''instances'', JArr [ex_vm_instance, ex_dup_instance])],
      JObj [(''type'', JStr ''azurerm_network_interface''), (''instances'', JArr [ex_nic_instance])],
      JObj [(''type'', JStr ''azurerm_public_ip''), (''instances'', JArr [ex_ip_instance])]])]"

definition ex_dup_resources :: resources where
  "ex_dup_resources = [(''hosts'', [(KStr ''v1'', 0), (KStr ''v2'', 1)]),
       (''nics'', [(KStr ''n1'', 2)]), (''public_ip'', [(KStr ''p1'', 3)])]"

definition ex_dup_vm :: azure_vm where
  "ex_dup_vm = \<lparr>res_id = JStr ''v2'', res_name = JStr ''web1'', nic_id = Some (JStr ''n1''),
                user = JStr ''azureuser'', nic = None\<rparr>"

definition ex_dup_heap :: heap where
  "ex_dup_heap = [VM ex_vm, VM ex_dup_vm, NIC ex_nic, IP ex_ip]"

definition ex_dup_heap_resolved :: heap where
  "ex_dup_heap_resolved =
     [VM (ex_vm\<lparr>nic := Some 2\<rparr>), VM (ex_dup_vm\<lparr>nic := Some 2\<rparr>),
      NIC (ex_nic\<lparr>public_ip := Some 3\<rparr>), IP ex_ip]"

definition ex_dup_inventory :: inventory_doc where
  "ex_dup_inventory =
     \<lparr>meta_hostvars = [(KStr ''web1'', [(''ansible_host'', JStr ''20.1.1.1''),
                                         (''ansible_user'', JStr ''azureuser'')])],
      all_hosts = [JStr ''web1'', JStr ''web1'']\<rparr>"

definition ex_vm_no_nic_instance :: json where
  "ex_vm_no_nic_instance = JObj [(''attributes'', JObj
     [(''id'', JStr ''v1''), (''name'', JStr ''web1''),
      (''network_interface_ids'', JArr []), (''os_profile'', JArr [])])]"

definition ex_vm_no_nic :: azure_vm where
  "ex_vm_no_nic = \<lparr>res_id = JStr ''v1'', res_name = JStr ''web1'', nic_id = None,
                   user = JNull, nic = None\<rparr>"

definition ex_nic_no_conf_instance :: json where
  "ex_nic_no_conf_instance = JObj [(''attributes'', JObj
     [(''id'', JStr ''n1''), (''name'', JStr ''nic1''),
      (''private_ip_address'', JStr ''10.0.0.5''), (''ip_configuration'', JArr [])])]"

definition ex_nic_no_conf :: azure_nic where
  "ex_nic_no_conf = \<lparr>res_id = JStr ''n1'', res_name = JStr ''nic1'',
                     private_ip = JStr ''10.0.0.5'', public_ip = None, public_ip_id = None\<rparr>"

text \<open>
  States whose NIC has no public IP: a NIC that names none, without and with a
  \<^verbatim>\<open>azurerm_public_ip\<close> entry in the state, and a NIC without IP configuration.
\<close>

definition ex_private_nic_instance :: json where
  "ex_private_nic_instance = JObj [(''attributes'', JObj
     [(''id'', JStr ''n1''), (''name'', JStr ''nic1''),
      (''private_ip_address'', JStr ''10.0.0.5''),
      (''ip_configuration'', JArr [JObj [(''public_ip_address_id'', JStr '''')]])])]"

definition ex_state_no_ip :: json where
  "ex_state_no_ip = JObj [(''resources'', JArr
     [JObj [(''type'', JStr ''azurerm_virtual_machine''), (''instances'', JArr [ex_vm_instance])],
      JObj [(''type'', JStr ''azurerm_network_interface''),
            (''instances'', JArr [ex_private_nic_instance])]])]"

definition ex_state_other_ip :: json where
  "ex_state_other_ip = JObj [(''resources'', JArr
     [JObj [(''type'', JStr ''azurerm_virtual_machine''), (''instances'', JArr [ex_vm_instance])],
      JObj [(''type'', JStr ''azurerm_network_interface''),
            (''instances'', JArr [ex_private_nic_instance])],
      JObj [(''type'', JStr ''azurerm_public_ip''), (''instances'', JArr [ex_ip_instance])]])]"

definition ex_state_no_conf :: json where
  "ex_state_no_conf = JObj [(''resources'', JArr
     [JObj [(''type'', JStr ''azurerm_virtual_machine''), (''instances'', JArr [ex_vm_instance])],
      JObj [(''type'', JStr ''azurerm_network_interface''),
            (''instances'', JArr [ex_nic_no_conf_instance])],
      JObj [(''type'', JStr ''azurerm_public_ip''), (''instances'', JArr [ex_ip_instance])]])]"

section \<open>Basic facts\<close>

lemma bind_result_Inl [simp]: "bind_result (Inl e) f = Inl e"
  by (simp add: bind_result_def)

lemma bind_result_Inr [simp]: "bind_result (Inr x) f = f x"
  by (simp add: bind_result_def)

lemma bind_result_eq_Inr: "(bind_result m f = Inr y) = (\<exists>x. m = Inr x \<and> f x = Inr y)"
  by (cases m) simp_all

lemma getitem_str_Inr:
  "(getitem_str x k = Inr v) = (\<exists>kvs. x = JObj kvs \<and> map_of kvs k = Some v)"
  by (cases x) (auto split: option.splits)

lemma AzureResource_init_attrs:
  "map_of a ''id'' = Some i \<Longrightarrow> map_of a ''name'' = Some n \<Longrightarrow>
   getitem_str resource ''attributes'' = Inr (JObj a) \<Longrightarrow>
   AzureResource_init resource = Inr \<lparr>res_id = i, res_name = n\<rparr>"
  by (simp add: AzureResource_init_def)

section \<open>Records with an empty reference list\<close>

lemma AzureVM_init_empty_ids:
  assumes "AzureVM_init resource = Inr v"
    and "getitem_str resource ''attributes'' = Inr attr"
    and "getitem_str attr ''network_interface_ids'' = Inr (JArr [])"
  shows "nic_id v = None"
  using assms by (auto simp: AzureVM_init_def bind_result_eq_Inr)

lemma AzureNIC_init_empty_conf:
  assumes "AzureNIC_init resource = Inr c"
    and "getitem_str resource ''attributes'' = Inr attr"
    and "getitem_str attr ''ip_configuration'' = Inr (JArr [])"
  shows "public_ip_id c = None"
  using assms by (auto simp: AzureNIC_init_def bind_result_eq_Inr)

lemma AzureVM_lookup_unset:
  "heap_get h self = Some (VM v) \<Longrightarrow> nic_id v = None \<Longrightarrow>
   AzureVM_lookup r h self =
     (h, Some (if map_of r ''nics'' = None then KeyError else AttributeError))"
  by (auto simp: AzureVM_lookup_def split: option.splits)

lemma AzureNIC_lookup_unset:
  "heap_get h self = Some (NIC c) \<Longrightarrow> public_ip_id c = None \<Longrightarrow>
   AzureNIC_lookup r h self =
     (h, Some (if map_of r ''public_ip'' = None then KeyError else AttributeError))"
  by (auto simp: AzureNIC_lookup_def split: option.splits)

text \<open>
  Claim C10. A VM built from a mapping whose \<^verbatim>\<open>network_interface_ids\<close> list is empty has
  no \<^verbatim>\<open>nic_id\<close> attribute, and \<^verbatim>\<open>lookup\<close> on it raises for every \<^verbatim>\<open>resources\<close>: KeyError
  when there is no \<^verbatim>\<open>nics\<close> group, AttributeError otherwise. The same holds for a NIC
  built from a mapping whose \<^verbatim>\<open>ip_configuration\<close> list is empty, with \<^verbatim>\<open>public_ip_id\<close>
  and the \<^verbatim>\<open>public_ip\<close> group. In both cases the store is left as it was.
\<close>

theorem empty_reference_list_lookup_raises:
  "(AzureVM_init resource = Inr v
      \<and> getitem_str resource ''attributes'' = Inr attr
      \<and> getitem_str attr ''network_interface_ids'' = Inr (JArr [])
      \<and> heap_get h self = Some (VM v)
    \<longrightarrow> nic_id v = None
      \<and> AzureVM_lookup r h self =
          (h, Some (if map_of r ''nics'' = None then KeyError else AttributeError)))
   \<and> (AzureNIC_init resource' = Inr c
      \<and> getitem_str resource' ''attributes'' = Inr attr'
      \<and> getitem_str attr' ''ip_configuration'' = Inr (JArr [])
      \<and> heap_get h' self' = Some (NIC c)
    \<longrightarrow> public_ip_id c = None
      \<and> AzureNIC_lookup r' h' self' =
          (h', Some (if map_of r' ''public_ip'' = None then KeyError else AttributeError)))"
  using AzureVM_init_empty_ids AzureVM_lookup_unset AzureNIC_init_empty_conf AzureNIC_lookup_unset
  by blast

theorem empty_reference_list_lookup_raises_witness:
  "AzureVM_init ex_vm_no_nic_instance = Inr ex_vm_no_nic
   \<and> nic_id ex_vm_no_nic = None
   \<and> AzureVM_lookup [(''nics'', [])] [VM ex_vm_no_nic] 0
       = ([VM ex_vm_no_nic], Some AttributeError)
   \<and> AzureNIC_init ex_nic_no_conf_instance = Inr ex_nic_no_conf
   \<and> public_ip_id ex_nic_no_conf = None
   \<and> AzureNIC_lookup [(''public_ip'', [])] [NIC ex_nic_no_conf] 0
       = ([NIC ex_nic_no_conf], Some AttributeError)"
proof -
  have vm: "AzureVM_init ex_vm_no_nic_instance = Inr ex_vm_no_nic"
    by (simp add: ex_vm_no_nic_instance_def ex_vm_no_nic_def AzureVM_init_def
        AzureResource_init_def)
  have nic: "AzureNIC_init ex_nic_no_conf_instance = Inr ex_nic_no_conf"
    by (simp add: ex_nic_no_conf_instance_def ex_nic_no_conf_def AzureNIC_init_def
        AzureResource_init_def)
  show ?thesis
    using vm nic
      empty_reference_list_lookup_raises
        [where resource = ex_vm_no_nic_instance and v = ex_vm_no_nic
          and attr = "JObj [(''id'', JStr ''v1''), (''name'', JStr ''web1''),
                (''network_interface_ids'', JArr []), (''os_profile'', JArr [])]"
          and h = "[VM ex_vm_no_nic]" and self = 0 and r = "[(''nics'', [])]"
          and resource' = ex_nic_no_conf_instance and c = ex_nic_no_conf
          and attr' = "JObj [(''id'', JStr ''n1''), (''name'', JStr ''nic1''),
                (''private_ip_address'', JStr ''10.0.0.5''), (''ip_configuration'', JArr [])]"
          and h' = "[NIC ex_nic_no_conf]" and self' = 0 and r' = "[(''public_ip'', [])]"]
    by (simp add: heap_get_def ex_vm_no_nic_instance_def ex_nic_no_conf_instance_def)
qed

section \<open>Stores built by extraction\<close>

lemma heap_get_append_new [simp]: "heap_get (h @ [x]) (length h) = Some x"
  by (simp add: heap_get_def)

lemma holds_append: "holds h c a \<Longrightarrow> holds (h @ ys) c a"
  by (auto simp: holds_def heap_get_def nth_append split: if_splits)

lemma wf_group_append: "wf_group h c g \<Longrightarrow> wf_group (h @ ys) c g"
  by (auto simp: wf_group_def list_all_iff holds_append)

lemma wf_store_append: "wf_store r h \<Longrightarrow> wf_store r (h @ ys)"
  by (auto simp: wf_store_def list_all_iff wf_group_append split: option.splits)

lemma list_all_update:
  "list_all P al \<Longrightarrow> P (k, v) \<Longrightarrow> list_all P (AList.update k v al)"
  by (induction al) auto

lemma construct_class:
  "construct c x = Inr obj \<Longrightarrow> class_of obj = c \<and> unresolved obj"
  by (cases c)
     (auto simp: bind_result_eq_Inr AzureVM_init_def AzureIP_init_def AzureNIC_init_def)

lemma add_instances_inv:
  "add_instances c xs g h = Inr (g', h') \<Longrightarrow> wf_group h c g \<Longrightarrow>
   wf_group h' c g' \<and> (\<exists>ys. h' = h @ ys \<and> list_all unresolved ys)"
proof (induction xs arbitrary: g h)
  case Nil
  then show ?case by simp
next
  case (Cons x xs)
  from Cons.prems(1) obtain obj k where
    obj: "construct c x = Inr obj" and k: "py_hash (obj_id obj) = Inr k"
    and rest: "add_instances c xs (AList.update k (length h) g) (h @ [obj]) = Inr (g', h')"
    by (auto simp: bind_result_eq_Inr)
  have "holds (h @ [obj]) c (length h)"
    using construct_class [OF obj] by (simp add: holds_def)
  then have "wf_group (h @ [obj]) c (AList.update k (length h) g)"
    using Cons.prems(2) by (simp add: wf_group_def list_all_update wf_group_append [unfolded wf_group_def])
  from Cons.IH [OF rest this] obtain ys where
    "wf_group h' c g'" and "h' = (h @ [obj]) @ ys" and "list_all unresolved ys"
    by blast
  then show ?case
    using construct_class [OF obj] by (intro conjI exI [of _ "obj # ys"]) simp_all
qed

lemma add_resources_to_group_inv:
  "add_resources_to_group g res c h = Inr (g', h') \<Longrightarrow> wf_group h c g \<Longrightarrow>
   wf_group h' c g' \<and> (\<exists>ys. h' = h @ ys \<and> list_all unresolved ys)"
  by (auto simp: add_resources_to_group_def bind_result_eq_Inr split: if_splits
           dest: add_instances_inv)

lemma wf_store_group:
  "wf_store r h \<Longrightarrow> map_of r name = Some g \<Longrightarrow> alias_class name = Some c \<Longrightarrow> wf_group h c g"
  by (auto simp: wf_store_def list_all_iff dest!: map_of_SomeD)

lemma update_resource_group_inv:
  assumes "update_resource_group typedef r res h = Inr (r', h')"
    and "alias_class (fst typedef) = Some (snd typedef)"
    and "wf_store r h"
  shows "wf_store r' h' \<and> (\<exists>ys. h' = h @ ys \<and> list_all unresolved ys)"
proof -
  define g where "g = (case map_of r (fst typedef) of Some g0 \<Rightarrow> g0 | None \<Rightarrow> [])"
  from assms(1) obtain g' where
    grp: "add_resources_to_group g res (snd typedef) h = Inr (g', h')"
    and r': "r' = AList.update (fst typedef) g' r"
    by (auto simp: update_resource_group_def Let_def bind_result_eq_Inr g_def)
  have "wf_group h (snd typedef) g"
    using assms(2,3) by (auto simp: g_def wf_group_def split: option.splits dest: wf_store_group)
  from add_resources_to_group_inv [OF grp this] obtain ys where
    g': "wf_group h' (snd typedef) g'" and h': "h' = h @ ys" and ys: "list_all unresolved ys"
    by blast
  have "wf_store r h'"
    using assms(3) h' by (simp add: wf_store_append)
  then have "wf_store r' h'"
    unfolding r' wf_store_def using g' assms(2) by (intro list_all_update) simp_all
  with h' ys show ?thesis by blast
qed

lemma type_entry_alias: "type_entry k = Some td \<Longrightarrow> alias_class (fst td) = Some (snd td)"
  by (auto simp: type_entry_def resource_types_def alias_class_def split: key.splits if_splits)

lemma extract_loop_inv:
  "extract_loop xs r h = Inr (r', h') \<Longrightarrow> wf_store r h \<Longrightarrow>
   wf_store r' h' \<and> (\<exists>ys. h' = h @ ys \<and> list_all unresolved ys)"
proof (induction xs arbitrary: r h)
  case Nil
  then show ?case by simp
next
  case (Cons x xs)
  from Cons.prems(1) obtain t k where
    step: "(case type_entry k of
        None \<Rightarrow> extract_loop xs r h
      | Some typedef \<Rightarrow>
          bind_result (update_resource_group typedef r x h) (\<lambda>(r1, h1). extract_loop xs r1 h1))
       = Inr (r', h')"
    by (auto simp: bind_result_eq_Inr)
  show ?case
  proof (cases "type_entry k")
    case None
    with step Cons.IH Cons.prems(2) show ?thesis by simp
  next
    case (Some td)
    with step obtain r1 h1 where
      upd: "update_resource_group td r x h = Inr (r1, h1)"
      and rest: "extract_loop xs r1 h1 = Inr (r', h')"
      by (auto simp: bind_result_eq_Inr)
    from update_resource_group_inv [OF upd type_entry_alias [OF Some] Cons.prems(2)]
    obtain ys where r1: "wf_store r1 h1" and h1: "h1 = h @ ys" and ys: "list_all unresolved ys"
      by blast
    from Cons.IH [OF rest r1] obtain zs where
      "wf_store r' h'" and "h' = h1 @ zs" and "list_all unresolved zs"
      by blast
    with h1 ys show ?thesis
      by (intro conjI exI [of _ "ys @ zs"]) simp_all
  qed
qed

lemma extract_resources_inv:
  assumes "extract_resources state h = Inr (r, h')"
  shows "wf_store r h' \<and> (\<exists>ys. h' = h @ ys \<and> list_all unresolved ys)"
proof -
  have "wf_store [] h" by (simp add: wf_store_def)
  with assms show ?thesis
    by (auto simp: extract_resources_def bind_result_eq_Inr split: if_splits dest: extract_loop_inv)
qed

lemma extract_resources_fresh:
  assumes "extract_resources state [] = Inr (r, h)"
  shows "wf_store r h" and "list_all unresolved h"
  using extract_resources_inv [OF assms] by auto

section \<open>Evaluating the examples\<close>

lemmas ex_defs = ex_vm_instance_def ex_nic_instance_def ex_ip_instance_def ex_state_def
  ex_state_vm_only_def ex_vm_def ex_nic_def ex_ip_def ex_resources_def ex_heap_def

lemmas model_defs = extract_resources_def resource_types_def type_entry_def
  update_resource_group_def add_resources_to_group_def AzureVM_init_def AzureNIC_init_def
  AzureIP_init_def AzureResource_init_def build_def inventory_def add_host_to_inventory_def
  AzureVM_lookup_def AzureNIC_lookup_def heap_get_def ansible_host_def hostvars_of_def
  empty_inventory_def

lemma ex_extract: "extract_resources ex_state [] = Inr (ex_resources, ex_heap)"
  by (simp add: ex_defs model_defs)

lemma ex_extract_vm_only:
  "extract_resources ex_state_vm_only [] = Inr ([(''hosts'', [(KStr ''v1'', 0)])], [VM ex_vm])"
  by (simp add: ex_defs model_defs)

section \<open>Missing groups\<close>

lemma AzureVM_lookup_no_nics:
  "heap_get h self = Some (VM v) \<Longrightarrow> map_of r ''nics'' = None \<Longrightarrow>
   AzureVM_lookup r h self = (h, Some KeyError)"
  by (simp add: AzureVM_lookup_def)

lemma AzureVM_lookup_dangling:
  "heap_get h self = Some (VM v) \<Longrightarrow> map_of r ''nics'' = Some g \<Longrightarrow> nic_id v = Some j \<Longrightarrow>
   py_hash j = Inr k \<Longrightarrow> map_of g k = None \<Longrightarrow> AzureVM_lookup r h self = (h, None)"
  by (simp add: AzureVM_lookup_def)

lemma AzureNIC_lookup_no_ips:
  "heap_get h self = Some (NIC c) \<Longrightarrow> map_of r ''public_ip'' = None \<Longrightarrow>
   AzureNIC_lookup r h self = (h, Some KeyError)"
  by (simp add: AzureNIC_lookup_def)

lemma py_hash_Inl: "py_hash j = Inl e \<Longrightarrow> e = TypeError"
  by (cases j) auto

lemma first_host_fresh:
  assumes "extract_resources state [] = Inr (r, h)" and "map_of r ''hosts'' = Some (x # xs)"
  shows "\<exists>v. heap_get h (snd x) = Some (VM v) \<and> nic v = None"
proof -
  have "alias_class ''hosts'' = Some AzureVM"
    by (simp add: alias_class_def resource_types_def)
  with extract_resources_fresh(1) [OF assms(1)] assms(2) have "wf_group h AzureVM (x # xs)"
    by (rule wf_store_group)
  then obtain obj where obj: "heap_get h (snd x) = Some obj" "class_of obj = AzureVM"
    by (auto simp: wf_group_def holds_def split: option.splits)
  then have "snd x < length h" "h ! snd x = obj"
    by (auto simp: heap_get_def split: if_splits)
  with extract_resources_fresh(2) [OF assms(1)] have "unresolved obj"
    by (auto simp: list_all_length)
  with obj show ?thesis by (cases obj) auto
qed

lemma build_first_host:
  assumes "extract_resources state [] = Inr (r, h)" and "map_of r ''hosts'' = Some (x # xs)"
  shows "build state u =
    (case add_host_to_inventory r u empty_inventory h (snd x) of
       (Inl e, h') \<Rightarrow> Inl e
     | (Inr doc', h') \<Rightarrow> fst (add_hosts r u (x # xs) (map fst xs) doc' h'))"
  using assms by (cases x) (auto simp: build_def inventory_def split: prod.splits sum.splits)

lemma build_without_nics:
  assumes ex: "extract_resources state [] = Inr (r, h)" and hosts: "map_of r ''hosts'' = Some (x # xs)"
  shows "(map_of r ''nics'' = None \<longrightarrow> build state u = Inl KeyError)
     \<and> (map_of r ''nics'' = Some [] \<longrightarrow> build state u \<in> {Inl AttributeError, Inl TypeError})"
proof -
  from first_host_fresh [OF ex hosts] obtain v where
    v: "heap_get h (snd x) = Some (VM v)" "nic v = None" by blast
  show ?thesis
  proof (intro conjI impI)
    assume "map_of r ''nics'' = None"
    then show "build state u = Inl KeyError"
      using v by (simp add: build_first_host [OF ex hosts] add_host_to_inventory_def
          AzureVM_lookup_no_nics)
  next
    assume "map_of r ''nics'' = Some []"
    then show "build state u \<in> {Inl AttributeError, Inl TypeError}"
      using v by (auto simp: build_first_host [OF ex hosts] add_host_to_inventory_def
          AzureVM_lookup_def ansible_host_def bind_result_def
          split: option.splits sum.splits dest: py_hash_Inl)
  qed
qed

text \<open>
  Claim C9. \<^verbatim>\<open>AzureVM.lookup\<close> raises KeyError whenever \<^verbatim>\<open>resources\<close> has no \<^verbatim>\<open>nics\<close>
  group, although an id that is missing from an existing \<^verbatim>\<open>nics\<close> group is tolerated
  (the call returns and changes nothing); \<^verbatim>\<open>AzureNIC.lookup\<close> raises KeyError whenever
  there is no \<^verbatim>\<open>public_ip\<close> group. Hence building the inventory of a state with at
  least one VM and no NIC aborts: with KeyError when no NIC resource entry was seen, with
  AttributeError or TypeError when the \<^verbatim>\<open>nics\<close> group exists and is empty.
\<close>

theorem missing_group_raises:
  "(heap_get h self = Some (VM v) \<and> map_of r ''nics'' = None
      \<longrightarrow> AzureVM_lookup r h self = (h, Some KeyError))
   \<and> (heap_get h self = Some (VM v) \<and> map_of r ''nics'' = Some g \<and> nic_id v = Some j
        \<and> py_hash j = Inr k \<and> map_of g k = None
      \<longrightarrow> AzureVM_lookup r h self = (h, None))
   \<and> (heap_get h self = Some (NIC c) \<and> map_of r ''public_ip'' = None
      \<longrightarrow> AzureNIC_lookup r h self = (h, Some KeyError))
   \<and> (extract_resources state [] = Inr (r', h') \<and> map_of r' ''hosts'' = Some (x # xs)
      \<longrightarrow> (map_of r' ''nics'' = None \<longrightarrow> build state u = Inl KeyError)
        \<and> (map_of r' ''nics'' = Some []
            \<longrightarrow> build state u \<in> {Inl AttributeError, Inl TypeError}))"
proof (intro conjI)
  show "heap_get h self = Some (VM v) \<and> map_of r ''nics'' = None
      \<longrightarrow> AzureVM_lookup r h self = (h, Some KeyError)"
    by (simp add: AzureVM_lookup_no_nics)
  show "heap_get h self = Some (VM v) \<and> map_of r ''nics'' = Some g \<and> nic_id v = Some j
        \<and> py_hash j = Inr k \<and> map_of g k = None
      \<longrightarrow> AzureVM_lookup r h self = (h, None)"
    by (simp add: AzureVM_lookup_dangling)
  show "heap_get h self = Some (NIC c) \<and> map_of r ''public_ip'' = None
      \<longrightarrow> AzureNIC_lookup r h self = (h, Some KeyError)"
    by (simp add: AzureNIC_lookup_no_ips)
  show "extract_resources state [] = Inr (r', h') \<and> map_of r' ''hosts'' = Some (x # xs)
      \<longrightarrow> (map_of r' ''nics'' = None \<longrightarrow> build state u = Inl KeyError)
        \<and> (map_of r' ''nics'' = Some []
            \<longrightarrow> build state u \<in> {Inl AttributeError, Inl TypeError})"
    using build_without_nics [of state r' h' x xs u] by simp
qed

theorem missing_group_raises_witness:
  "AzureVM_lookup [] [VM ex_vm] 0 = ([VM ex_vm], Some KeyError)
   \<and> AzureVM_lookup [(''nics'', [])] [VM ex_vm] 0 = ([VM ex_vm], None)
   \<and> AzureNIC_lookup [] [NIC ex_nic] 0 = ([NIC ex_nic], Some KeyError)
   \<and> build ex_state_vm_only False = Inl KeyError"
  using missing_group_raises [where h = "[VM ex_vm]" and self = 0 and v = ex_vm and r = "[]"
      and state = ex_state_vm_only and r' = "[(''hosts'', [(KStr ''v1'', 0)])]"
      and h' = "[VM ex_vm]" and x = "(KStr ''v1'', 0)" and xs = "[]" and u = False]
    missing_group_raises [where h = "[VM ex_vm]" and self = 0 and v = ex_vm
      and r = "[(''nics'', [])]" and g = "[]" and j = "JStr ''n1''" and k = "KStr ''n1''"]
    missing_group_raises [where h = "[NIC ex_nic]" and self = 0 and c = ex_nic and r = "[]"]
    ex_extract_vm_only
  by (simp add: heap_get_def ex_vm_def)

section \<open>States without recognized resources\<close>

lemma extract_loop_unrecognized:
  "\<forall>res\<in>set xs. \<exists>t k. getitem_str res ''type'' = Inr t \<and> py_hash t = Inr k \<and> type_entry k = None
   \<Longrightarrow> extract_loop xs r h = Inr (r, h)"
  by (induction xs) auto

lemma inventory_no_groups:
  "inventory [] u h = (Inr \<lparr>meta_hostvars = [], all_hosts = []\<rparr>, h)"
  by (simp add: inventory_def empty_inventory_def)

text \<open>
  Claim C5. A state document (a dict) with no \<^verbatim>\<open>resources\<close> key, or whose resource list
  has only entries of unrecognized kinds (every entry has a \<^verbatim>\<open>type\<close>, a hashable value
  that is not in the type table), is extracted to the empty mapping without error,
  allocating nothing, and the inventory built from it is exactly
  \<^verbatim>\<open>{"_meta": {"hostvars": {}}, "all": {"hosts": []}}\<close>.
\<close>

theorem no_recognized_resources_empty_inventory:
  assumes "map_of d ''resources'' = None
    \<or> (\<exists>entries. map_of d ''resources'' = Some (JArr entries)
         \<and> (\<forall>res\<in>set entries. \<exists>t k. getitem_str res ''type'' = Inr t \<and> py_hash t = Inr k
               \<and> type_entry k = None))"
  shows "extract_resources (JObj d) h = Inr ([], h)
    \<and> inventory [] u h = (Inr \<lparr>meta_hostvars = [], all_hosts = []\<rparr>, h)
    \<and> build (JObj d) u = Inr \<lparr>meta_hostvars = [], all_hosts = []\<rparr>"
proof -
  have ex: "extract_resources (JObj d) h' = Inr ([], h')" for h'
    using assms
  proof
    assume "map_of d ''resources'' = None"
    then have "''resources'' \<notin> fst ` set d"
      by (simp add: map_of_eq_None_iff)
    then show ?thesis
      by (simp add: extract_resources_def)
  next
    assume "\<exists>entries. map_of d ''resources'' = Some (JArr entries)
         \<and> (\<forall>res\<in>set entries. \<exists>t k. getitem_str res ''type'' = Inr t \<and> py_hash t = Inr k
               \<and> type_entry k = None)"
    then obtain entries where
      rs: "map_of d ''resources'' = Some (JArr entries)"
      and un: "\<forall>res\<in>set entries. \<exists>t k. getitem_str res ''type'' = Inr t \<and> py_hash t = Inr k
               \<and> type_entry k = None"
      by blast
    from rs have "''resources'' \<in> fst ` set d"
      by (metis map_of_eq_None_iff option.distinct(1))
    with rs un show ?thesis
      by (simp add: extract_resources_def extract_loop_unrecognized)
  qed
  show ?thesis
    by (simp add: ex inventory_no_groups build_def)
qed

theorem no_recognized_resources_empty_inventory_witness:
  "build (JObj []) False = Inr \<lparr>meta_hostvars = [], all_hosts = []\<rparr>
   \<and> extract_resources
       (JObj [(''resources'', JArr [JObj [(''type'', JStr ''azurerm_resource_group''),
                                       (''instances'', JArr [JObj []])]])]) []
     = Inr ([], [])
   \<and> build
       (JObj [(''resources'', JArr [JObj [(''type'', JStr ''azurerm_resource_group''),
                                       (''instances'', JArr [JObj []])]])]) True
     = Inr \<lparr>meta_hostvars = [], all_hosts = []\<rparr>"
  using no_recognized_resources_empty_inventory [of "[]" "[]" False]
    no_recognized_resources_empty_inventory
      [of "[(''resources'', JArr [JObj [(''type'', JStr ''azurerm_resource_group''),
                                       (''instances'', JArr [JObj []])]])]" "[]" True]
  by (simp add: type_entry_def resource_types_def)

section \<open>Construction with optional structures\<close>

text \<open>
  Claim C3 fails as stated: a VM mapping with \<^verbatim>\<open>id\<close> and \<^verbatim>\<open>name\<close> only, and a NIC mapping
  with \<^verbatim>\<open>id\<close>, \<^verbatim>\<open>name\<close> and \<^verbatim>\<open>private_ip_address\<close> only, are not constructed.
\<close>

theorem missing_optional_structure_counterexample:
  "AzureVM_init (JObj [(''attributes'', JObj [(''id'', JStr ''v1''), (''name'', JStr ''web1'')])])
     = Inl KeyError
   \<and> AzureNIC_init (JObj [(''attributes'', JObj [(''id'', JStr ''n1''), (''name'', JStr ''nic1''),
        (''private_ip_address'', JStr ''10.0.0.5'')])])
     = Inl KeyError"
  by (simp add: AzureVM_init_def AzureNIC_init_def AzureResource_init_def)

text \<open>
  Claim C3, as amended. For a resource whose attribute mapping has \<^verbatim>\<open>id\<close> and \<^verbatim>\<open>name\<close>
  (and \<^verbatim>\<open>private_ip_address\<close> for a NIC), construction succeeds when the optional
  structures are present and empty: with \<^verbatim>\<open>os_profile\<close> the empty list the VM's
  \<^verbatim>\<open>user\<close> is \<^verbatim>\<open>None\<close>, with \<^verbatim>\<open>ip_configuration\<close> the empty list the NIC's
  \<^verbatim>\<open>public_ip\<close> is \<^verbatim>\<open>None\<close>. When \<^verbatim>\<open>network_interface_ids\<close>, \<^verbatim>\<open>os_profile\<close> or
  \<^verbatim>\<open>ip_configuration\<close> is missing from the mapping, construction raises KeyError.
\<close>

theorem empty_optional_structure_constructs:
  assumes "getitem_str resource ''attributes'' = Inr (JObj a)"
    and "map_of a ''id'' = Some i" and "map_of a ''name'' = Some n"
  shows "(map_of a ''network_interface_ids'' = None \<longrightarrow> AzureVM_init resource = Inl KeyError)
    \<and> (map_of a ''network_interface_ids'' = Some (JArr ids) \<and> map_of a ''os_profile'' = None
         \<longrightarrow> AzureVM_init resource = Inl KeyError)
    \<and> (map_of a ''network_interface_ids'' = Some (JArr ids) \<and> map_of a ''os_profile'' = Some (JArr [])
         \<longrightarrow> (\<exists>v. AzureVM_init resource = Inr v \<and> res_id v = i \<and> res_name v = n \<and> user v = JNull))
    \<and> (map_of a ''private_ip_address'' = Some p \<and> map_of a ''ip_configuration'' = None
         \<longrightarrow> AzureNIC_init resource = Inl KeyError)
    \<and> (map_of a ''private_ip_address'' = Some p \<and> map_of a ''ip_configuration'' = Some (JArr [])
         \<longrightarrow> (\<exists>c. AzureNIC_init resource = Inr c \<and> res_id c = i \<and> res_name c = n
                \<and> private_ip c = p \<and> public_ip c = None))"
  using assms
  by (cases ids) (simp_all add: AzureVM_init_def AzureNIC_init_def AzureResource_init_attrs)

theorem empty_optional_structure_constructs_witness:
  "(\<exists>v. AzureVM_init (JObj [(''attributes'', JObj [(''id'', JStr ''v1''), (''name'', JStr ''web1''),
          (''network_interface_ids'', JArr []), (''os_profile'', JArr [])])]) = Inr v
        \<and> res_id v = JStr ''v1'' \<and> res_name v = JStr ''web1'' \<and> user v = JNull)
   \<and> (\<exists>c. AzureNIC_init (JObj [(''attributes'', JObj [(''id'', JStr ''n1''), (''name'', JStr ''nic1''),
          (''private_ip_address'', JStr ''10.0.0.5''), (''ip_configuration'', JArr [])])]) = Inr c
        \<and> res_id c = JStr ''n1'' \<and> res_name c = JStr ''nic1'' \<and> private_ip c = JStr ''10.0.0.5''
        \<and> public_ip c = None)
   \<and> AzureVM_init (JObj [(''attributes'', JObj [(''id'', JStr ''v1''), (''name'', JStr ''web1''),
          (''network_interface_ids'', JArr [])])]) = Inl KeyError"
  using empty_optional_structure_constructs
      [of "JObj [(''attributes'', JObj [(''id'', JStr ''v1''), (''name'', JStr ''web1''),
          (''network_interface_ids'', JArr []), (''os_profile'', JArr [])])]"
        "[(''id'', JStr ''v1''), (''name'', JStr ''web1''),
          (''network_interface_ids'', JArr []), (''os_profile'', JArr [])]"
        "JStr ''v1''" "JStr ''web1''" "[]"]
    empty_optional_structure_constructs
      [of "JObj [(''attributes'', JObj [(''id'', JStr ''n1''), (''name'', JStr ''nic1''),
          (''private_ip_address'', JStr ''10.0.0.5''), (''ip_configuration'', JArr [])])]"
        "[(''id'', JStr ''n1''), (''name'', JStr ''nic1''),
          (''private_ip_address'', JStr ''10.0.0.5''), (''ip_configuration'', JArr [])]"
        "JStr ''n1''" "JStr ''nic1''" _ "JStr ''10.0.0.5''"]
    empty_optional_structure_constructs
      [of "JObj [(''attributes'', JObj [(''id'', JStr ''v1''), (''name'', JStr ''web1''),
          (''network_interface_ids'', JArr [])])]"
        "[(''id'', JStr ''v1''), (''name'', JStr ''web1''),
          (''network_interface_ids'', JArr [])]"
        "JStr ''v1''" "JStr ''web1''" "[]"]
  by simp

section \<open>The host entry\<close>

lemma add_host_resolved:
  assumes "AzureVM_lookup r h host = (h', None)"
    and "heap_get h' host = Some (VM v)"
    and "py_hash (res_name v) = Inr k"
    and "ansible_host u h' v = Inr a"
  shows "add_host_to_inventory r u doc h host =
    (Inr (doc\<lparr>meta_hostvars := AList.update k (hostvars_of a v) (meta_hostvars doc),
              all_hosts := all_hosts doc @ [res_name v]\<rparr>), h')"
  using assms by (simp add: add_host_to_inventory_def)

lemma ansible_host_resolved:
  assumes "nic v = Some n" and "heap_get h n = Some (NIC c)"
    and "public_ip c = None \<or> public_ip c = Some p \<and> heap_get h p = Some (IP i)"
  shows "ansible_host u h v = Inr (if public_ip c \<noteq> None \<and> \<not> u then ip i else private_ip c)"
  using assms by (auto simp: ansible_host_def)

text \<open>
  Where \<^verbatim>\<open>lookup\<close> returns on a VM whose name is hashable and leaves it with an attached
  NIC, \<^verbatim>\<open>add_host_to_inventory\<close> returns, and the entry it stores under the VM's name
  has \<^verbatim>\<open>ansible_host\<close> equal to the \<^verbatim>\<open>ip\<close> of the NIC's public IP when the NIC has one
  and \<^verbatim>\<open>use_private_ip\<close> is false, and to the NIC's \<^verbatim>\<open>private_ip\<close> in every other case.
\<close>

theorem ansible_host_selection:
  assumes "AzureVM_lookup r h host = (h', None)"
    and "heap_get h' host = Some (VM v)"
    and "py_hash (res_name v) = Inr k"
    and "nic v = Some n" and "heap_get h' n = Some (NIC c)"
    and "public_ip c = None \<or> public_ip c = Some p \<and> heap_get h' p = Some (IP i)"
  shows "\<exists>doc' hv. add_host_to_inventory r u doc h host = (Inr doc', h')
    \<and> map_of (meta_hostvars doc') k = Some hv
    \<and> map_of hv ''ansible_host''
        = Some (if public_ip c \<noteq> None \<and> \<not> u then ip i else private_ip c)"
  using add_host_resolved [OF assms(1-3) ansible_host_resolved [OF assms(4-6)]]
  by (simp add: update_conv' hostvars_of_def)

lemma ex_lookup: "AzureVM_lookup ex_resources ex_heap 0 = (ex_heap_resolved, None)"
  by (simp add: ex_defs ex_heap_resolved_def AzureVM_lookup_def AzureNIC_lookup_def heap_get_def)

theorem ansible_host_selection_example:
  "(\<exists>doc' hv. add_host_to_inventory ex_resources False empty_inventory ex_heap 0
        = (Inr doc', ex_heap_resolved)
      \<and> map_of (meta_hostvars doc') (KStr ''web1'') = Some hv
      \<and> map_of hv ''ansible_host'' = Some (JStr ''20.1.1.1''))
   \<and> (\<exists>doc' hv. add_host_to_inventory ex_resources True empty_inventory ex_heap 0
        = (Inr doc', ex_heap_resolved)
      \<and> map_of (meta_hostvars doc') (KStr ''web1'') = Some hv
      \<and> map_of hv ''ansible_host'' = Some (JStr ''10.0.0.5''))"
  using ansible_host_selection [OF ex_lookup, where v = "ex_vm\<lparr>nic := Some 1\<rparr>"
      and k = "KStr ''web1''" and n = 1 and c = "ex_nic\<lparr>public_ip := Some 2\<rparr>" and p = 2
      and i = ex_ip and u = False and doc = empty_inventory]
    ansible_host_selection [OF ex_lookup, where v = "ex_vm\<lparr>nic := Some 1\<rparr>"
      and k = "KStr ''web1''" and n = 1 and c = "ex_nic\<lparr>public_ip := Some 2\<rparr>" and p = 2
      and i = ex_ip and u = True and doc = empty_inventory]
  by (simp add: ex_heap_resolved_def heap_get_def ex_vm_def ex_nic_def ex_ip_def)

text \<open>
  Claim C1. The file's header says that the script returns the public IP if it is available,
  and lines 140 to 143 take the NIC's private address when the NIC has no public IP. For a
  VM whose NIC has no public IP the code does not get that far in two cases. When the state
  has no \<^verbatim>\<open>azurerm_public_ip\<close> entry, \<^verbatim>\<open>resources['public_ip']\<close> raises KeyError in
  \<^verbatim>\<open>AzureNIC.lookup\<close>, with \<^verbatim>\<open>use_private_ip\<close> false or true. When the NIC has an empty
  \<^verbatim>\<open>ip_configuration\<close>, \<^verbatim>\<open>self.public_ip_id\<close> raises AttributeError. The same NIC
  beside an unrelated public IP gets the private address, as the claim says.
\<close>

theorem private_address_lost_without_public_ip:
  "build ex_state_no_ip False = Inl KeyError
   \<and> build ex_state_no_ip True = Inl KeyError
   \<and> build ex_state_no_conf False = Inl AttributeError
   \<and> build ex_state_no_conf True = Inl AttributeError
   \<and> build ex_state_other_ip False =
       Inr \<lparr>meta_hostvars = [(KStr ''web1'', [(''ansible_host'', JStr ''10.0.0.5'')])],
            all_hosts = [JStr ''web1'']\<rparr>"
  by (simp add: ex_state_no_ip_def ex_state_no_conf_def ex_state_other_ip_def
      ex_private_nic_instance_def ex_nic_no_conf_instance_def ex_vm_instance_def
      ex_ip_instance_def model_defs)

section \<open>The admin user\<close>

lemma AzureVM_init_user:
  assumes "AzureVM_init resource = Inr v"
    and "getitem_str resource ''attributes'' = Inr attr"
    and "getitem_str attr ''os_profile'' = Inr os_profile"
  shows "(\<not> truthy os_profile \<longrightarrow> user v = JNull)
    \<and> (truthy os_profile \<longrightarrow>
         (\<exists>p a. getitem_0 os_profile = Inr p \<and> getitem_str p ''admin_username'' = Inr a
            \<and> user v = (if truthy a then a else JNull)))"
  using assms by (auto simp: AzureVM_init_def bind_result_eq_Inr split: if_splits)

text \<open>
  Claim C6. \<^verbatim>\<open>AzureVM.__init__\<close> sets \<^verbatim>\<open>user\<close> to \<^verbatim>\<open>None\<close> when \<^verbatim>\<open>os_profile\<close> is empty
  or the first profile's \<^verbatim>\<open>admin_username\<close> is empty, and to that \<^verbatim>\<open>admin_username\<close>
  otherwise. The entry that \<^verbatim>\<open>add_host_to_inventory\<close> stores under the VM's name has no
  \<^verbatim>\<open>ansible_user\<close> key when the VM's \<^verbatim>\<open>user\<close> is \<^verbatim>\<open>None\<close> or empty, and has
  \<^verbatim>\<open>ansible_user\<close> equal to \<^verbatim>\<open>user\<close> otherwise.
\<close>

theorem ansible_user_key:
  "(AzureVM_init resource = Inr v0
      \<and> getitem_str resource ''attributes'' = Inr attr
      \<and> getitem_str attr ''os_profile'' = Inr os_profile
    \<longrightarrow> (\<not> truthy os_profile \<longrightarrow> user v0 = JNull)
      \<and> (truthy os_profile \<longrightarrow>
           (\<exists>p a. getitem_0 os_profile = Inr p \<and> getitem_str p ''admin_username'' = Inr a
              \<and> user v0 = (if truthy a then a else JNull))))
   \<and> (AzureVM_lookup r h host = (h', None)
      \<and> heap_get h' host = Some (VM v)
      \<and> py_hash (res_name v) = Inr k
      \<and> ansible_host u h' v = Inr a'
    \<longrightarrow> (\<exists>doc' hv. add_host_to_inventory r u doc h host = (Inr doc', h')
          \<and> map_of (meta_hostvars doc') k = Some hv
          \<and> map_of hv ''ansible_user'' = (if truthy (user v) then Some (user v) else None)))"
proof (intro conjI impI)
  assume "AzureVM_init resource = Inr v0
      \<and> getitem_str resource ''attributes'' = Inr attr
      \<and> getitem_str attr ''os_profile'' = Inr os_profile"
  then have *: "(\<not> truthy os_profile \<longrightarrow> user v0 = JNull)
    \<and> (truthy os_profile \<longrightarrow>
         (\<exists>p a. getitem_0 os_profile = Inr p \<and> getitem_str p ''admin_username'' = Inr a
            \<and> user v0 = (if truthy a then a else JNull)))"
    using AzureVM_init_user by blast
  { assume "\<not> truthy os_profile" with * show "user v0 = JNull" by blast }
  { assume "truthy os_profile"
    with * show "\<exists>p a. getitem_0 os_profile = Inr p \<and> getitem_str p ''admin_username'' = Inr a
              \<and> user v0 = (if truthy a then a else JNull)" by blast }
next
  assume "AzureVM_lookup r h host = (h', None)
      \<and> heap_get h' host = Some (VM v)
      \<and> py_hash (res_name v) = Inr k
      \<and> ansible_host u h' v = Inr a'"
  then show "\<exists>doc' hv. add_host_to_inventory r u doc h host = (Inr doc', h')
          \<and> map_of (meta_hostvars doc') k = Some hv
          \<and> map_of hv ''ansible_user'' = (if truthy (user v) then Some (user v) else None)"
    by (simp add: add_host_resolved update_conv' hostvars_of_def)
qed

lemma ex_admin_init: "AzureVM_init ex_admin_instance = Inr ex_admin_vm"
  by (simp add: ex_admin_instance_def ex_admin_vm_def AzureVM_init_def AzureResource_init_def)

lemma ex_vm_init: "AzureVM_init ex_vm_instance = Inr ex_vm"
  by (simp add: ex_vm_instance_def ex_vm_def AzureVM_init_def AzureResource_init_def)

lemma ex_admin_lookup:
  "AzureVM_lookup ex_resources [VM ex_admin_vm, NIC ex_nic, IP ex_ip] 0
   = ([VM (ex_admin_vm\<lparr>nic := Some 1\<rparr>), NIC (ex_nic\<lparr>public_ip := Some 2\<rparr>), IP ex_ip], None)"
  by (simp add: ex_defs ex_admin_vm_def AzureVM_lookup_def AzureNIC_lookup_def heap_get_def)

theorem ansible_user_key_witness:
  "user ex_admin_vm = JStr ''azureuser''
   \<and> user ex_vm = JNull
   \<and> (\<exists>doc' hv. add_host_to_inventory ex_resources False empty_inventory
          [VM ex_admin_vm, NIC ex_nic, IP ex_ip] 0
        = (Inr doc', [VM (ex_admin_vm\<lparr>nic := Some 1\<rparr>), NIC (ex_nic\<lparr>public_ip := Some 2\<rparr>),
                      IP ex_ip])
      \<and> map_of (meta_hostvars doc') (KStr ''db1'') = Some hv
      \<and> map_of hv ''ansible_user'' = Some (JStr ''azureuser''))
   \<and> (\<exists>doc' hv. add_host_to_inventory ex_resources False empty_inventory ex_heap 0
        = (Inr doc', ex_heap_resolved)
      \<and> map_of (meta_hostvars doc') (KStr ''web1'') = Some hv
      \<and> map_of hv ''ansible_user'' = None)"
  using ansible_user_key [where resource = ex_admin_instance and ?v0.0 = ex_admin_vm
      and attr = "JObj [(''id'', JStr ''v2''), (''name'', JStr ''db1''),
        (''network_interface_ids'', JArr [JStr ''n1'']),
        (''os_profile'', JArr [JObj [(''admin_username'', JStr ''azureuser'')]])]"
      and os_profile = "JArr [JObj [(''admin_username'', JStr ''azureuser'')]]"
      and r = ex_resources and h = "[VM ex_admin_vm, NIC ex_nic, IP ex_ip]" and host = 0
      and h' = "[VM (ex_admin_vm\<lparr>nic := Some 1\<rparr>), NIC (ex_nic\<lparr>public_ip := Some 2\<rparr>), IP ex_ip]"
      and v = "ex_admin_vm\<lparr>nic := Some 1\<rparr>" and k = "KStr ''db1''" and u = False
      and a' = "JStr ''20.1.1.1''" and doc = empty_inventory]
    ansible_user_key [where resource = ex_vm_instance and ?v0.0 = ex_vm
      and attr = "JObj [(''id'', JStr ''v1''), (''name'', JStr ''web1''),
        (''network_interface_ids'', JArr [JStr ''n1'']), (''os_profile'', JArr [])]"
      and os_profile = "JArr []"
      and r = ex_resources and h = ex_heap and host = 0 and h' = ex_heap_resolved
      and v = "ex_vm\<lparr>nic := Some 1\<rparr>" and k = "KStr ''web1''" and u = False
      and a' = "JStr ''20.1.1.1''" and doc = empty_inventory]
    ex_admin_init ex_vm_init ex_admin_lookup ex_lookup
  by (simp add: ex_heap_resolved_def heap_get_def ansible_host_def ex_admin_instance_def
      ex_vm_instance_def)
     (simp add: ex_admin_vm_def ex_vm_def ex_nic_def ex_ip_def)

section \<open>The effect of lookup on the store\<close>

lemma heap_get_update:
  "heap_get (h[a := x]) b = (if b = a \<and> a < length h then Some x else heap_get h b)"
  by (simp add: heap_get_def)

lemma heap_get_length: "heap_get h a = Some x \<Longrightarrow> a < length h"
  by (simp add: heap_get_def split: if_splits)

lemma heap_update_same: "heap_get h a = Some x \<Longrightarrow> h[a := x] = h"
  by (auto simp: heap_get_def split: if_splits)

lemma AzureNIC_lookup_alt:
  assumes "heap_get h self = Some (NIC c)"
  shows "AzureNIC_lookup r h self =
    (case group_target r ''public_ip'' (public_ip_id c) of
       None \<Rightarrow> (h, lookup_error r ''public_ip'' (public_ip_id c))
     | Some p \<Rightarrow> (h[self := NIC (c\<lparr>public_ip := Some p\<rparr>)], None))"
  using assms
  by (simp add: AzureNIC_lookup_def group_target_def lookup_error_def
      split: option.splits sum.splits)

lemma AzureNIC_lookup_not_NIC:
  assumes "\<nexists>c. heap_get h self = Some (NIC c)"
  shows "AzureNIC_lookup r h self = (h, Some StoreFault)"
  using assms by (auto simp: AzureNIC_lookup_def split: option.splits pyobj.splits)

lemma AzureVM_lookup_alt:
  assumes "heap_get h self = Some (VM v)"
  shows "AzureVM_lookup r h self =
    (case group_target r ''nics'' (nic_id v) of
       None \<Rightarrow> (h, lookup_error r ''nics'' (nic_id v))
     | Some n \<Rightarrow> AzureNIC_lookup r (h[self := VM (v\<lparr>nic := Some n\<rparr>)]) n)"
  using assms
  by (simp add: AzureVM_lookup_def group_target_def lookup_error_def
      split: option.splits sum.splits)

lemma AzureVM_lookup_not_VM:
  assumes "\<nexists>v. heap_get h self = Some (VM v)"
  shows "AzureVM_lookup r h self = (h, Some StoreFault)"
  using assms by (auto simp: AzureVM_lookup_def split: option.splits pyobj.splits)

subsection \<open>Frame\<close>

lemma same_but_ref_refl [simp]: "same_but_ref x x"
  by (cases x) simp_all

lemma list_all2_same_but_ref_update:
  assumes "heap_get h a = Some x" and "same_but_ref x y"
  shows "list_all2 same_but_ref h (h[a := y])"
  using assms
  by (auto simp: list_all2_conv_all_nth heap_get_def nth_list_update split: if_splits)

lemma same_but_ref_trans: "same_but_ref x y \<Longrightarrow> same_but_ref y z \<Longrightarrow> same_but_ref x z"
  by (cases x; cases y; cases z) (simp_all, (metis azure_vm.surjective azure_vm.update_convs(3) azure_nic.surjective azure_nic.update_convs(2))+)

lemma AzureNIC_lookup_frame:
  assumes "AzureNIC_lookup r h self = (h', e)"
  shows "list_all2 same_but_ref h h' \<and> (\<forall>b. b \<noteq> self \<longrightarrow> heap_get h' b = heap_get h b)"
proof (cases "\<exists>c. heap_get h self = Some (NIC c)")
  case True
  then obtain c where c: "heap_get h self = Some (NIC c)" by blast
  show ?thesis
  proof (cases "group_target r ''public_ip'' (public_ip_id c)")
    case None
    with assms c show ?thesis
      by (simp add: AzureNIC_lookup_alt list_all2_refl)
  next
    case (Some p)
    with assms c have h': "h' = h[self := NIC (c\<lparr>public_ip := Some p\<rparr>)]"
      by (simp add: AzureNIC_lookup_alt)
    have "same_but_ref (NIC c) (NIC (c\<lparr>public_ip := Some p\<rparr>))" by simp
    from list_all2_same_but_ref_update [OF c this] show ?thesis
      by (simp add: h' heap_get_update)
  qed
next
  case False
  with assms show ?thesis
    by (simp add: AzureNIC_lookup_not_NIC list_all2_refl)
qed

lemma AzureVM_lookup_frame:
  assumes "AzureVM_lookup r h self = (h', e)"
  shows "list_all2 same_but_ref h h'
    \<and> (\<forall>b. b \<noteq> self \<and> nic_of h' self \<noteq> Some b \<longrightarrow> heap_get h' b = heap_get h b)"
proof (cases "\<exists>v. heap_get h self = Some (VM v)")
  case True
  then obtain v where v: "heap_get h self = Some (VM v)" by blast
  show ?thesis
  proof (cases "group_target r ''nics'' (nic_id v)")
    case None
    with assms v show ?thesis
      by (simp add: AzureVM_lookup_alt list_all2_refl)
  next
    case (Some n)
    define h0 where "h0 = h[self := VM (v\<lparr>nic := Some n\<rparr>)]"
    from assms v Some have nl: "AzureNIC_lookup r h0 n = (h', e)"
      by (simp add: AzureVM_lookup_alt h0_def)
    have "same_but_ref (VM v) (VM (v\<lparr>nic := Some n\<rparr>))" by simp
    from list_all2_same_but_ref_update [OF v this] have s0: "list_all2 same_but_ref h h0"
      by (simp add: h0_def)
    from AzureNIC_lookup_frame [OF nl] have
      s1: "list_all2 same_but_ref h0 h'" and f1: "\<And>b. b \<noteq> n \<Longrightarrow> heap_get h' b = heap_get h0 b"
      by auto
    have self0: "heap_get h0 self = Some (VM (v\<lparr>nic := Some n\<rparr>))"
      using v by (simp add: h0_def heap_get_update heap_get_length)
    have "nic_of h' self = Some n"
    proof (cases "n = self")
      case True
      with self0 have "AzureNIC_lookup r h0 n = (h0, Some StoreFault)"
        by (simp add: AzureNIC_lookup_not_NIC)
      with nl self0 True show ?thesis by (simp add: nic_of_def)
    next
      case False
      with f1 [of self] self0 show ?thesis by (simp add: nic_of_def)
    qed
    moreover have "list_all2 same_but_ref h h'"
      using s0 s1 by (rule list_all2_trans [rotated]) (rule same_but_ref_trans)
    ultimately show ?thesis
      using f1 by (auto simp: h0_def heap_get_update)
  qed
next
  case False
  with assms show ?thesis
    by (simp add: AzureVM_lookup_not_VM list_all2_refl)
qed

text \<open>
  Claim C8. \<^verbatim>\<open>lookup\<close> receives the groups and returns no new ones: the tables are
  left as they are. In the store, every object keeps its class and all its fields other than
  the reference that \<^verbatim>\<open>lookup\<close> attaches (so no public-IP record changes at all);
  \<^verbatim>\<open>AzureVM.lookup\<close> changes no object other than the VM itself and the NIC attached to
  it, and \<^verbatim>\<open>AzureNIC.lookup\<close> no object other than the NIC itself. This holds whether or
  not the call raises.
\<close>

theorem lookup_frame:
  "(AzureVM_lookup r h self = (h', e)
      \<longrightarrow> list_all2 same_but_ref h h'
        \<and> (\<forall>b. b \<noteq> self \<and> nic_of h' self \<noteq> Some b \<longrightarrow> heap_get h' b = heap_get h b))
   \<and> (AzureNIC_lookup r h self = (h', e)
      \<longrightarrow> list_all2 same_but_ref h h'
        \<and> (\<forall>b. b \<noteq> self \<longrightarrow> heap_get h' b = heap_get h b))"
  using AzureVM_lookup_frame [of r h self h' e] AzureNIC_lookup_frame [of r h self h' e]
  by blast

theorem lookup_frame_witness:
  "list_all2 same_but_ref ex_heap ex_heap_resolved
   \<and> heap_get ex_heap_resolved 2 = heap_get ex_heap 2
   \<and> heap_get ex_heap_resolved 2 = Some (IP ex_ip)
   \<and> list_all2 same_but_ref ex_heap [VM ex_vm, NIC (ex_nic\<lparr>public_ip := Some 2\<rparr>), IP ex_ip]
   \<and> heap_get [VM ex_vm, NIC (ex_nic\<lparr>public_ip := Some 2\<rparr>), IP ex_ip] 0 = heap_get ex_heap 0"
  using lookup_frame [of ex_resources ex_heap 0 ex_heap_resolved None]
    lookup_frame [of ex_resources ex_heap 1 "[VM ex_vm, NIC (ex_nic\<lparr>public_ip := Some 2\<rparr>), IP ex_ip]" None]
    ex_lookup
  by (simp add: nic_of_def heap_get_def ex_heap_resolved_def ex_heap_def AzureVM_lookup_def
      AzureNIC_lookup_def ex_resources_def ex_nic_def ex_vm_def)

section \<open>What lookup attaches\<close>

text \<open>
  What \<^verbatim>\<open>lookup\<close> does when the attributes are set and the groups exist. Let the VM
  have a \<^verbatim>\<open>nic_id\<close> attribute with a hashable value and
  let \<^verbatim>\<open>resources\<close> have a \<^verbatim>\<open>nics\<close> group. When the id is not a key of the group,
  \<^verbatim>\<open>lookup\<close> returns and changes nothing. When it is the key of a NIC that has a
  \<^verbatim>\<open>public_ip_id\<close> attribute with a hashable value, and \<^verbatim>\<open>resources\<close> has a
  \<^verbatim>\<open>public_ip\<close> group, \<^verbatim>\<open>lookup\<close> returns after it has attached the NIC to the VM and,
  when the NIC's id is a key of that group, the public IP to the NIC; otherwise the NIC
  is left as it was.
\<close>

theorem lookup_attaches:
  assumes "heap_get h self = Some (VM v)" and "map_of r ''nics'' = Some nics"
    and "nic_id v = Some j" and "py_hash j = Inr k"
  shows "(map_of nics k = None \<longrightarrow> AzureVM_lookup r h self = (h, None))
    \<and> (map_of nics k = Some n \<and> heap_get h n = Some (NIC c)
        \<and> map_of r ''public_ip'' = Some ips \<and> public_ip_id c = Some j' \<and> py_hash j' = Inr k'
       \<longrightarrow> (map_of ips k' = None
             \<longrightarrow> AzureVM_lookup r h self = (h[self := VM (v\<lparr>nic := Some n\<rparr>)], None))
         \<and> (map_of ips k' = Some p
             \<longrightarrow> AzureVM_lookup r h self =
                   (h[self := VM (v\<lparr>nic := Some n\<rparr>), n := NIC (c\<lparr>public_ip := Some p\<rparr>)], None)))"
  using assms
  by (auto simp: AzureVM_lookup_def AzureNIC_lookup_def heap_get_update)

theorem lookup_attaches_example:
  "AzureVM_lookup [(''nics'', [])] [VM ex_vm] 0 = ([VM ex_vm], None)
   \<and> AzureVM_lookup [(''nics'', [(KStr ''n1'', 1)]), (''public_ip'', [])] [VM ex_vm, NIC ex_nic] 0
       = ([VM (ex_vm\<lparr>nic := Some 1\<rparr>), NIC ex_nic], None)
   \<and> AzureVM_lookup ex_resources ex_heap 0
       = ([VM (ex_vm\<lparr>nic := Some 1\<rparr>), NIC (ex_nic\<lparr>public_ip := Some 2\<rparr>), IP ex_ip], None)"
  using lookup_attaches [where h = "[VM ex_vm]" and self = 0 and v = ex_vm
      and r = "[(''nics'', [])]" and nics = "[]" and j = "JStr ''n1''" and k = "KStr ''n1''"]
    lookup_attaches [where h = "[VM ex_vm, NIC ex_nic]" and self = 0 and v = ex_vm
      and r = "[(''nics'', [(KStr ''n1'', 1)]), (''public_ip'', [])]"
      and nics = "[(KStr ''n1'', 1)]" and j = "JStr ''n1''" and k = "KStr ''n1''"
      and n = 1 and c = ex_nic and ips = "[]" and j' = "JStr ''p1''" and k' = "KStr ''p1''"]
    lookup_attaches [where h = ex_heap and self = 0 and v = ex_vm
      and r = ex_resources and nics = "[(KStr ''n1'', 1)]" and j = "JStr ''n1''"
      and k = "KStr ''n1''" and n = 1 and c = ex_nic and ips = "[(KStr ''p1'', 2)]"
      and j' = "JStr ''p1''" and k' = "KStr ''p1''" and p = 2]
  by (simp add: heap_get_def ex_heap_def ex_resources_def ex_vm_def ex_nic_def)

text \<open>
  Claim C2. \<^verbatim>\<open>__init__\<close> guards the empty list and sets \<^verbatim>\<open>user\<close> and \<^verbatim>\<open>public_ip\<close>
  to \<^verbatim>\<open>None\<close>, but leaves \<^verbatim>\<open>nic_id\<close> and \<^verbatim>\<open>public_ip_id\<close> unset; \<^verbatim>\<open>inventory\<close>
  guards the \<^verbatim>\<open>hosts\<close> group, but \<^verbatim>\<open>lookup\<close> subscripts \<^verbatim>\<open>resources['nics']\<close> and
  \<^verbatim>\<open>resources['public_ip']\<close> unguarded. So \<^verbatim>\<open>lookup\<close> does not leave the reference
  absent: it raises AttributeError on a VM built from an empty \<^verbatim>\<open>network_interface_ids\<close>
  list and on a NIC built from an empty \<^verbatim>\<open>ip_configuration\<close> list, and KeyError when
  \<^verbatim>\<open>resources\<close> has no \<^verbatim>\<open>nics\<close> group.
\<close>

theorem lookup_raises_on_absent_reference:
  "AzureVM_init ex_vm_no_nic_instance = Inr ex_vm_no_nic
   \<and> AzureVM_lookup [(''nics'', [])] [VM ex_vm_no_nic] 0 = ([VM ex_vm_no_nic], Some AttributeError)
   \<and> AzureNIC_init ex_nic_no_conf_instance = Inr ex_nic_no_conf
   \<and> AzureNIC_lookup [(''public_ip'', [])] [NIC ex_nic_no_conf] 0
       = ([NIC ex_nic_no_conf], Some AttributeError)
   \<and> AzureVM_init ex_vm_instance = Inr ex_vm
   \<and> AzureVM_lookup [(''hosts'', [(KStr ''v1'', 0)])] [VM ex_vm] 0 = ([VM ex_vm], Some KeyError)"
  by (simp add: ex_vm_no_nic_instance_def ex_vm_no_nic_def ex_nic_no_conf_instance_def
      ex_nic_no_conf_def ex_vm_instance_def ex_vm_def AzureVM_init_def AzureNIC_init_def
      AzureResource_init_def AzureVM_lookup_def AzureNIC_lookup_def heap_get_def)

section \<open>Repeating lookup\<close>

lemma consistentD: "consistent r h \<Longrightarrow> heap_get h b = Some x \<Longrightarrow> consistent_obj r x"
  by (auto simp: consistent_def list_all_length heap_get_def split: if_splits)

lemma consistent_update:
  "consistent r h \<Longrightarrow> consistent_obj r x \<Longrightarrow> consistent r (h[a := x])"
  unfolding consistent_def list_all_iff
  by (metis insert_iff set_update_subset_insert subsetD)

lemma unresolved_consistent: "list_all unresolved h \<Longrightarrow> consistent r h"
proof -
  have "unresolved x \<Longrightarrow> consistent_obj r x" for x by (cases x) simp_all
  then show "list_all unresolved h \<Longrightarrow> consistent r h"
    by (auto simp: consistent_def list_all_iff)
qed

lemma adv_obj_refl [simp]: "adv_obj r x x"
  by (cases x) simp_all

lemma adv_obj_trans: "adv_obj r x y \<Longrightarrow> adv_obj r y z \<Longrightarrow> adv_obj r x z"
  by (cases x; cases y; cases z) auto

lemma advanced_refl [simp]: "advanced r h h"
  by (simp add: advanced_def list_all2_refl)

lemma advanced_trans:
  assumes "advanced r h h1" and "advanced r h1 h2"
  shows "advanced r h h2"
  using assms unfolding advanced_def
  by (rule list_all2_trans [rotated]) (rule adv_obj_trans)

lemma advanced_update:
  "heap_get h a = Some x \<Longrightarrow> adv_obj r x y \<Longrightarrow> advanced r h (h[a := y])"
  by (auto simp: advanced_def list_all2_conv_all_nth heap_get_def nth_list_update split: if_splits)

lemma advanced_get:
  "advanced r h H \<Longrightarrow> rel_option (adv_obj r) (heap_get h b) (heap_get H b)"
  by (auto simp: advanced_def list_all2_conv_all_nth heap_get_def)

lemma advanced_VM:
  assumes "advanced r h H" and "heap_get h b = Some (VM v)"
    and "nic v = group_target r ''nics'' (nic_id v)"
  shows "heap_get H b = Some (VM v)"
proof -
  from advanced_get [OF assms(1), of b] assms(2) obtain y where
    y: "heap_get H b = Some y" "adv_obj r (VM v) y"
    by (auto simp: option_rel_Some1)
  then show ?thesis using assms(3) by (cases y) auto
qed

lemma advanced_NIC:
  assumes "advanced r h H" and "heap_get h b = Some (NIC c)"
    and "public_ip c = group_target r ''public_ip'' (public_ip_id c)"
  shows "heap_get H b = Some (NIC c)"
proof -
  from advanced_get [OF assms(1), of b] assms(2) obtain y where
    y: "heap_get H b = Some y" "adv_obj r (NIC c) y"
    by (auto simp: option_rel_Some1)
  then show ?thesis using assms(3) by (cases y) auto
qed

lemma advanced_not_VM:
  assumes "advanced r h H" and "\<nexists>v. heap_get h b = Some (VM v)"
  shows "\<nexists>v. heap_get H b = Some (VM v)"
proof
  assume "\<exists>v. heap_get H b = Some (VM v)"
  then obtain w where w: "heap_get H b = Some (VM w)" by blast
  with advanced_get [OF assms(1), of b] obtain x where
    "heap_get h b = Some x" "adv_obj r x (VM w)"
    by (auto simp: option_rel_Some2)
  with assms(2) show False by (cases x) auto
qed

lemma advanced_not_NIC:
  assumes "advanced r h H" and "\<nexists>c. heap_get h b = Some (NIC c)"
  shows "\<nexists>c. heap_get H b = Some (NIC c)"
proof
  assume "\<exists>c. heap_get H b = Some (NIC c)"
  then obtain w where w: "heap_get H b = Some (NIC w)" by blast
  with advanced_get [OF assms(1), of b] obtain x where
    "heap_get h b = Some x" "adv_obj r x (NIC w)"
    by (auto simp: option_rel_Some2)
  with assms(2) show False by (cases x) auto
qed

lemma advanced_IP_view:
  assumes "advanced r h H"
  shows "(case heap_get H p of Some (IP i) \<Rightarrow> f i | _ \<Rightarrow> z)
       = (case heap_get h p of Some (IP i) \<Rightarrow> f i | _ \<Rightarrow> z)"
proof -
  from advanced_get [OF assms, of p] show ?thesis
  proof (cases rule: option.rel_cases)
    case None
    then show ?thesis by simp
  next
    case (Some x y)
    then show ?thesis by (cases x; cases y) auto
  qed
qed

text \<open>After \<^verbatim>\<open>AzureNIC.lookup\<close> the NIC's reference is the one the groups give.\<close>

lemma AzureNIC_lookup_final:
  assumes "consistent r h" and "AzureNIC_lookup r h n = (h1, e)"
    and "heap_get h n = Some (NIC c)"
  shows "\<exists>c1. heap_get h1 n = Some (NIC c1)
    \<and> public_ip c1 = group_target r ''public_ip'' (public_ip_id c1)
    \<and> public_ip_id c1 = public_ip_id c
    \<and> e = (case group_target r ''public_ip'' (public_ip_id c) of
             None \<Rightarrow> lookup_error r ''public_ip'' (public_ip_id c) | Some p \<Rightarrow> None)"
proof (cases "group_target r ''public_ip'' (public_ip_id c)")
  case None
  moreover from consistentD [OF assms(1,3)] None have "public_ip c = None" by auto
  ultimately show ?thesis
    using assms(2,3) by (simp add: AzureNIC_lookup_alt)
next
  case (Some p)
  then show ?thesis
    using assms(2,3) by (auto simp: AzureNIC_lookup_alt heap_get_update heap_get_length)
qed

lemma AzureNIC_lookup_advanced:
  assumes "consistent r h" and "AzureNIC_lookup r h n = (h1, e)"
  shows "advanced r h h1 \<and> consistent r h1"
proof (cases "\<exists>c. heap_get h n = Some (NIC c)")
  case True
  then obtain c where c: "heap_get h n = Some (NIC c)" by blast
  show ?thesis
  proof (cases "group_target r ''public_ip'' (public_ip_id c)")
    case None
    with assms c show ?thesis by (simp add: AzureNIC_lookup_alt)
  next
    case (Some p)
    with assms c have h1: "h1 = h[n := NIC (c\<lparr>public_ip := Some p\<rparr>)]"
      by (simp add: AzureNIC_lookup_alt)
    from consistentD [OF assms(1) c] Some
    have "adv_obj r (NIC c) (NIC (c\<lparr>public_ip := Some p\<rparr>))" by auto
    moreover have "consistent_obj r (NIC (c\<lparr>public_ip := Some p\<rparr>))"
      using Some by simp
    ultimately show ?thesis
      using assms(1) c by (simp add: h1 advanced_update consistent_update)
  qed
next
  case False
  with assms show ?thesis by (simp add: AzureNIC_lookup_not_NIC)
qed

lemma AzureNIC_lookup_stable:
  assumes "consistent r h" and "AzureNIC_lookup r h n = (h1, e)" and "advanced r h1 H"
  shows "AzureNIC_lookup r H n = (H, e)"
proof (cases "\<exists>c. heap_get h n = Some (NIC c)")
  case True
  then obtain c where c: "heap_get h n = Some (NIC c)" by blast
  from AzureNIC_lookup_final [OF assms(1,2) c] obtain c1 where
    c1: "heap_get h1 n = Some (NIC c1)"
    and fin: "public_ip c1 = group_target r ''public_ip'' (public_ip_id c1)"
    and same: "public_ip_id c1 = public_ip_id c"
    and e: "e = (case group_target r ''public_ip'' (public_ip_id c) of
             None \<Rightarrow> lookup_error r ''public_ip'' (public_ip_id c) | Some p \<Rightarrow> None)"
    by blast
  have H: "heap_get H n = Some (NIC c1)"
    using assms(3) c1 fin by (rule advanced_NIC)
  show ?thesis
  proof (cases "group_target r ''public_ip'' (public_ip_id c)")
    case None
    with H e same show ?thesis by (simp add: AzureNIC_lookup_alt)
  next
    case (Some p)
    with fin same have "c1\<lparr>public_ip := Some p\<rparr> = c1" by simp
    with H e same Some show ?thesis by (simp add: AzureNIC_lookup_alt heap_update_same)
  qed
next
  case False
  with assms(2) have "h1 = h" "e = Some StoreFault"
    by (simp_all add: AzureNIC_lookup_not_NIC)
  moreover from advanced_not_NIC [OF assms(3)] False \<open>h1 = h\<close>
  have "\<nexists>c. heap_get H n = Some (NIC c)" by simp
  ultimately show ?thesis by (simp add: AzureNIC_lookup_not_NIC)
qed

text \<open>
  The store after \<^verbatim>\<open>AzureVM.lookup\<close>, when the VM's id is a key of the \<^verbatim>\<open>nics\<close> group.
\<close>

lemma AzureVM_lookup_found:
  assumes "heap_get h a = Some (VM v)" and "group_target r ''nics'' (nic_id v) = Some n"
    and "AzureVM_lookup r h a = (h1, e)"
  shows "AzureNIC_lookup r (h[a := VM (v\<lparr>nic := Some n\<rparr>)]) n = (h1, e)"
    and "heap_get h1 a = Some (VM (v\<lparr>nic := Some n\<rparr>))"
proof -
  define h0 where "h0 = h[a := VM (v\<lparr>nic := Some n\<rparr>)]"
  from assms show nl: "AzureNIC_lookup r (h[a := VM (v\<lparr>nic := Some n\<rparr>)]) n = (h1, e)"
    by (simp add: AzureVM_lookup_alt)
  have a0: "heap_get h0 a = Some (VM (v\<lparr>nic := Some n\<rparr>))"
    using assms(1) by (simp add: h0_def heap_get_update heap_get_length)
  show "heap_get h1 a = Some (VM (v\<lparr>nic := Some n\<rparr>))"
  proof (cases "n = a")
    case True
    with a0 have "AzureNIC_lookup r h0 n = (h0, Some StoreFault)"
      by (simp add: AzureNIC_lookup_not_NIC)
    with nl a0 show ?thesis by (simp add: h0_def)
  next
    case False
    with AzureNIC_lookup_frame [OF nl] a0 show ?thesis by (simp add: h0_def)
  qed
qed

lemma AzureVM_lookup_advanced:
  assumes "consistent r h" and "AzureVM_lookup r h a = (h1, e)"
  shows "advanced r h h1 \<and> consistent r h1"
proof (cases "\<exists>v. heap_get h a = Some (VM v)")
  case True
  then obtain v where v: "heap_get h a = Some (VM v)" by blast
  show ?thesis
  proof (cases "group_target r ''nics'' (nic_id v)")
    case None
    with assms v show ?thesis by (simp add: AzureVM_lookup_alt)
  next
    case (Some n)
    define h0 where "h0 = h[a := VM (v\<lparr>nic := Some n\<rparr>)]"
    from consistentD [OF assms(1) v] Some
    have "adv_obj r (VM v) (VM (v\<lparr>nic := Some n\<rparr>))" by auto
    moreover have "consistent_obj r (VM (v\<lparr>nic := Some n\<rparr>))"
      using Some by simp
    ultimately have h0: "advanced r h h0" "consistent r h0"
      using assms(1) v by (simp_all add: h0_def advanced_update consistent_update)
    from AzureVM_lookup_found(1) [OF v Some assms(2)]
    have "AzureNIC_lookup r h0 n = (h1, e)" by (simp add: h0_def)
    from AzureNIC_lookup_advanced [OF h0(2) this] h0(1) show ?thesis
      by (blast intro: advanced_trans)
  qed
next
  case False
  with assms show ?thesis by (simp add: AzureVM_lookup_not_VM)
qed

lemma AzureVM_lookup_stable:
  assumes "consistent r h" and "AzureVM_lookup r h a = (h1, e)" and "advanced r h1 H"
  shows "AzureVM_lookup r H a = (H, e)"
    and "e = None \<Longrightarrow> heap_get H a = heap_get h1 a"
    and "e = None \<Longrightarrow> heap_get h1 a = Some (VM w) \<Longrightarrow> ansible_host u H w = ansible_host u h1 w"
proof -
  have "AzureVM_lookup r H a = (H, e)
    \<and> (e = None \<longrightarrow> heap_get H a = heap_get h1 a
        \<and> (\<forall>w. heap_get h1 a = Some (VM w) \<longrightarrow> ansible_host u H w = ansible_host u h1 w))"
  proof (cases "\<exists>v. heap_get h a = Some (VM v)")
    case True
    then obtain v where v: "heap_get h a = Some (VM v)" by blast
    show ?thesis
    proof (cases "group_target r ''nics'' (nic_id v)")
      case None
      with assms(2) v have h1: "h1 = h" and e: "e = lookup_error r ''nics'' (nic_id v)"
        by (simp_all add: AzureVM_lookup_alt)
      from consistentD [OF assms(1) v] None have unset: "nic v = None" by auto
      with None have "nic v = group_target r ''nics'' (nic_id v)" by simp
      with assms(3) v have H: "heap_get H a = Some (VM v)"
        unfolding h1 by (rule advanced_VM)
      with None e h1 v unset show ?thesis
        by (simp add: AzureVM_lookup_alt ansible_host_def)
    next
      case (Some n)
      define v0 where "v0 = v\<lparr>nic := Some n\<rparr>"
      define h0 where "h0 = h[a := VM v0]"
      from AzureVM_lookup_found [OF v Some assms(2)]
      have nl: "AzureNIC_lookup r h0 n = (h1, e)" and a1: "heap_get h1 a = Some (VM v0)"
        by (simp_all add: h0_def v0_def)
      have fin: "nic v0 = group_target r ''nics'' (nic_id v0)"
        using Some by (simp add: v0_def)
      have "consistent_obj r (VM v0)" using fin by simp
      with assms(1) have c0: "consistent r h0"
        by (simp add: h0_def consistent_update)
      have H: "heap_get H a = Some (VM v0)"
        using assms(3) a1 fin by (rule advanced_VM)
      have "v0\<lparr>nic := Some n\<rparr> = v0" by (simp add: v0_def)
      with H Some have "AzureVM_lookup r H a = AzureNIC_lookup r H n"
        by (simp add: AzureVM_lookup_alt v0_def heap_update_same)
      also have "\<dots> = (H, e)"
        using c0 nl assms(3) by (rule AzureNIC_lookup_stable)
      finally have lookup: "AzureVM_lookup r H a = (H, e)" .
      have "ansible_host u H v0 = ansible_host u h1 v0" if "e = None"
      proof (cases "\<exists>c. heap_get h0 n = Some (NIC c)")
        case True
        then obtain c where c: "heap_get h0 n = Some (NIC c)" by blast
        from AzureNIC_lookup_final [OF c0 nl c] obtain c1 where
          c1: "heap_get h1 n = Some (NIC c1)"
          and cfin: "public_ip c1 = group_target r ''public_ip'' (public_ip_id c1)"
          by blast
        have "heap_get H n = Some (NIC c1)"
          using assms(3) c1 cfin by (rule advanced_NIC)
        with c1 show ?thesis
          by (simp add: ansible_host_def v0_def advanced_IP_view [OF assms(3)]
              split: option.splits)
      next
        case False
        with nl have "e = Some StoreFault"
          by (simp add: AzureNIC_lookup_not_NIC)
        with that show ?thesis by simp
      qed
      with lookup H a1 show ?thesis by simp
    qed
  next
    case False
    with assms(2) have "h1 = h" "e = Some StoreFault"
      by (simp_all add: AzureVM_lookup_not_VM)
    moreover from advanced_not_VM [OF assms(3)] False \<open>h1 = h\<close>
    have "\<nexists>v. heap_get H a = Some (VM v)" by simp
    ultimately show ?thesis by (simp add: AzureVM_lookup_not_VM)
  qed
  then show "AzureVM_lookup r H a = (H, e)"
    and "e = None \<Longrightarrow> heap_get H a = heap_get h1 a"
    and "e = None \<Longrightarrow> heap_get h1 a = Some (VM w) \<Longrightarrow> ansible_host u H w = ansible_host u h1 w"
    by blast+
qed

text \<open>Idempotence of \<^verbatim>\<open>lookup\<close> needs no consistency: the second call repeats the first.\<close>

lemma AzureNIC_lookup_twice:
  "AzureNIC_lookup r (fst (AzureNIC_lookup r h n)) n = AzureNIC_lookup r h n"
proof (cases "\<exists>c. heap_get h n = Some (NIC c)")
  case True
  then obtain c where c: "heap_get h n = Some (NIC c)" by blast
  show ?thesis
  proof (cases "group_target r ''public_ip'' (public_ip_id c)")
    case None
    with c show ?thesis by (simp add: AzureNIC_lookup_alt)
  next
    case (Some p)
    define c1 where "c1 = c\<lparr>public_ip := Some p\<rparr>"
    have 1: "AzureNIC_lookup r h n = (h[n := NIC c1], None)"
      using c Some by (simp add: AzureNIC_lookup_alt c1_def)
    have "heap_get (h[n := NIC c1]) n = Some (NIC c1)"
      using c by (simp add: heap_get_update heap_get_length)
    moreover have "c1\<lparr>public_ip := Some p\<rparr> = c1" by (simp add: c1_def)
    ultimately have "AzureNIC_lookup r (h[n := NIC c1]) n = (h[n := NIC c1], None)"
      using Some by (simp add: AzureNIC_lookup_alt c1_def)
    with 1 show ?thesis by simp
  qed
next
  case False
  then show ?thesis by (simp add: AzureNIC_lookup_not_NIC)
qed

lemma AzureVM_lookup_twice:
  "AzureVM_lookup r (fst (AzureVM_lookup r h a)) a = AzureVM_lookup r h a"
proof (cases "\<exists>v. heap_get h a = Some (VM v)")
  case True
  then obtain v where v: "heap_get h a = Some (VM v)" by blast
  show ?thesis
  proof (cases "group_target r ''nics'' (nic_id v)")
    case None
    with v show ?thesis by (simp add: AzureVM_lookup_alt)
  next
    case (Some n)
    define v0 where "v0 = v\<lparr>nic := Some n\<rparr>"
    define h0 where "h0 = h[a := VM v0]"
    obtain h1 e where res: "AzureVM_lookup r h a = (h1, e)" by (cases "AzureVM_lookup r h a")
    from AzureVM_lookup_found [OF v Some res]
    have nl: "AzureNIC_lookup r h0 n = (h1, e)" and a1: "heap_get h1 a = Some (VM v0)"
      by (simp_all add: h0_def v0_def)
    have "v0\<lparr>nic := Some n\<rparr> = v0" by (simp add: v0_def)
    with a1 Some have "AzureVM_lookup r h1 a = AzureNIC_lookup r h1 n"
      by (simp add: AzureVM_lookup_alt v0_def heap_update_same)
    also have "\<dots> = AzureNIC_lookup r h0 n"
      using AzureNIC_lookup_twice [of r h0 n] nl by simp
    finally show ?thesis using res nl by simp
  qed
next
  case False
  then show ?thesis by (simp add: AzureVM_lookup_not_VM)
qed

section \<open>Repeating the build\<close>

lemma add_host_heap:
  "snd (add_host_to_inventory r u doc h a) = fst (AzureVM_lookup r h a)"
  by (simp add: add_host_to_inventory_def split: prod.splits option.splits pyobj.splits)

lemma add_host_advanced:
  assumes "consistent r h" and "add_host_to_inventory r u doc h a = (res, h1)"
  shows "advanced r h h1 \<and> consistent r h1"
proof -
  from assms(2) add_host_heap [of r u doc h a] have "fst (AzureVM_lookup r h a) = h1" by simp
  then have "AzureVM_lookup r h a = (h1, snd (AzureVM_lookup r h a))"
    by (metis prod.collapse)
  with assms(1) show ?thesis by (rule AzureVM_lookup_advanced)
qed

lemma add_host_stable:
  assumes "consistent r h" and "add_host_to_inventory r u doc h a = (res, h1)"
    and "advanced r h1 H"
  shows "add_host_to_inventory r u doc H a = (res, H)"
proof -
  obtain e where l: "AzureVM_lookup r h a = (h1, e)"
    using assms(2) add_host_heap [of r u doc h a] by (metis prod.collapse snd_conv)
  note st = AzureVM_lookup_stable [OF assms(1) l assms(3)]
  show ?thesis
  proof (cases e)
    case (Some x)
    with assms(2) l st(1) show ?thesis by (simp add: add_host_to_inventory_def)
  next
    case None
    show ?thesis
    proof (cases "\<exists>w. heap_get h1 a = Some (VM w)")
      case True
      then obtain w where w: "heap_get h1 a = Some (VM w)" by blast
      with st(2) [OF None] have "heap_get H a = Some (VM w)" by simp
      with assms(2) l None st(1) w st(3) [OF None w, of u] show ?thesis
        by (simp add: add_host_to_inventory_def)
    next
      case False
      with st(2) [OF None] have "\<nexists>w. heap_get H a = Some (VM w)" by simp
      with assms(2) l None st(1) False show ?thesis
        by (auto simp: add_host_to_inventory_def split: option.splits pyobj.splits)
    qed
  qed
qed

lemma add_hosts_advanced:
  "consistent r h \<Longrightarrow> add_hosts r u g ks doc h = (res, h') \<Longrightarrow>
   advanced r h h' \<and> consistent r h'"
proof (induction ks arbitrary: doc h)
  case Nil
  then show ?case by simp
next
  case (Cons k ks)
  show ?case
  proof (cases "map_of g k")
    case None
    with Cons.prems show ?thesis by simp
  next
    case (Some a)
    obtain res1 h1 where step: "add_host_to_inventory r u doc h a = (res1, h1)"
      by (cases "add_host_to_inventory r u doc h a")
    note adv1 = add_host_advanced [OF Cons.prems(1) step]
    show ?thesis
    proof (cases res1)
      case (Inl e)
      with Cons.prems(2) Some step adv1 show ?thesis by simp
    next
      case (Inr doc1)
      with Cons.prems(2) Some step have "add_hosts r u g ks doc1 h1 = (res, h')" by simp
      from Cons.IH [OF _ this] adv1 show ?thesis by (blast intro: advanced_trans)
    qed
  qed
qed

lemma add_hosts_stable:
  "consistent r h \<Longrightarrow> add_hosts r u g ks doc h = (res, h') \<Longrightarrow> advanced r h' H \<Longrightarrow>
   add_hosts r u g ks doc H = (res, H)"
proof (induction ks arbitrary: doc h)
  case Nil
  then show ?case by simp
next
  case (Cons k ks)
  show ?case
  proof (cases "map_of g k")
    case None
    with Cons.prems show ?thesis by simp
  next
    case (Some a)
    obtain res1 h1 where step: "add_host_to_inventory r u doc h a = (res1, h1)"
      by (cases "add_host_to_inventory r u doc h a")
    note adv1 = add_host_advanced [OF Cons.prems(1) step]
    show ?thesis
    proof (cases res1)
      case (Inl e)
      with Cons.prems(2) Some step have "res = Inl e" "h' = h1" by simp_all
      with add_host_stable [OF Cons.prems(1) step] Cons.prems(3) Some Inl show ?thesis by simp
    next
      case (Inr doc1)
      with Cons.prems(2) Some step have rest: "add_hosts r u g ks doc1 h1 = (res, h')" by simp
      from add_hosts_advanced [OF _ rest] adv1 have "advanced r h1 h'" by blast
      with Cons.prems(3) have "advanced r h1 H" by (blast intro: advanced_trans)
      from add_host_stable [OF Cons.prems(1) step this]
      have "add_host_to_inventory r u doc H a = (Inr doc1, H)" using Inr by simp
      moreover from Cons.IH [OF _ rest Cons.prems(3)] adv1
      have "add_hosts r u g ks doc1 H = (res, H)" by blast
      ultimately show ?thesis using Some by simp
    qed
  qed
qed

lemma inventory_twice:
  assumes "consistent r h"
  shows "inventory r u (snd (inventory r u h)) = inventory r u h"
proof (cases "map_of r ''hosts''")
  case None
  then show ?thesis by (simp add: inventory_def)
next
  case (Some g)
  obtain res h' where run: "add_hosts r u g (map fst g) empty_inventory h = (res, h')"
    by (cases "add_hosts r u g (map fst g) empty_inventory h")
  from add_hosts_stable [OF assms run advanced_refl] run Some show ?thesis
    by (simp add: inventory_def)
qed

text \<open>
  Claim C7. A second \<^verbatim>\<open>lookup\<close> on the store that the first one left returns the same
  outcome and leaves the same store, for a VM and for a NIC. The inventory is a function
  of the state document, so two runs on one document cannot differ; what could differ is
  a second \<^verbatim>\<open>inventory()\<close> on the same \<^verbatim>\<open>Inventory\<close> object, whose records the
  first call has resolved: it returns the same document (or raises the same exception) and
  leaves the store as it found it.
\<close>

theorem lookup_and_build_idempotent:
  "AzureVM_lookup r (fst (AzureVM_lookup r h a)) a = AzureVM_lookup r h a
   \<and> AzureNIC_lookup r (fst (AzureNIC_lookup r h a)) a = AzureNIC_lookup r h a
   \<and> (extract_resources state [] = Inr (r', h')
      \<longrightarrow> inventory r' u (snd (inventory r' u h')) = inventory r' u h')"
  using AzureVM_lookup_twice [of r h a] AzureNIC_lookup_twice [of r h a]
    inventory_twice [OF unresolved_consistent [OF extract_resources_fresh(2)], of state r' h' r' u]
  by simp

lemma ex_inventory:
  "inventory ex_resources False ex_heap =
     (Inr \<lparr>meta_hostvars = [(KStr ''web1'', [(''ansible_host'', JStr ''20.1.1.1'')])],
           all_hosts = [JStr ''web1'']\<rparr>, ex_heap_resolved)"
  by (simp add: ex_defs ex_heap_resolved_def model_defs)

theorem lookup_and_build_idempotent_witness:
  "AzureVM_lookup ex_resources ex_heap_resolved 0 = (ex_heap_resolved, None)
   \<and> AzureNIC_lookup ex_resources [VM ex_vm, NIC (ex_nic\<lparr>public_ip := Some 2\<rparr>), IP ex_ip] 1
       = ([VM ex_vm, NIC (ex_nic\<lparr>public_ip := Some 2\<rparr>), IP ex_ip], None)
   \<and> inventory ex_resources False ex_heap_resolved =
       (Inr \<lparr>meta_hostvars = [(KStr ''web1'', [(''ansible_host'', JStr ''20.1.1.1'')])],
             all_hosts = [JStr ''web1'']\<rparr>, ex_heap_resolved)"
  using lookup_and_build_idempotent [of ex_resources ex_heap 0 ex_state ex_resources ex_heap False]
    lookup_and_build_idempotent [of ex_resources ex_heap 1]
    ex_lookup ex_extract ex_inventory
  by (simp add: AzureNIC_lookup_def heap_get_def ex_heap_def ex_resources_def ex_nic_def)

section \<open>Host names and host variables\<close>

lemma add_host_success:
  assumes "add_host_to_inventory r u d h a = (Inr d1, h1)"
  shows "\<exists>v k x. heap_get h1 a = Some (VM v) \<and> py_hash (res_name v) = Inr k
    \<and> ansible_host u h1 v = Inr x
    \<and> d1 = d\<lparr>meta_hostvars := AList.update k (hostvars_of x v) (meta_hostvars d),
             all_hosts := all_hosts d @ [res_name v]\<rparr>"
  using assms
  by (auto simp: add_host_to_inventory_def bind_result_eq_Inr
      split: prod.splits option.splits pyobj.splits)

lemma host_entry_success:
  assumes "add_host_to_inventory r u d H a = (Inr d1, H)"
  shows "\<exists>n k hv. host_entry u H a = Some (n, k, hv) \<and> py_hash n = Inr k
    \<and> d1 = d\<lparr>meta_hostvars := AList.update k hv (meta_hostvars d),
             all_hosts := all_hosts d @ [n]\<rparr>"
  using add_host_success [OF assms] by (auto simp: host_entry_def)

lemma add_hosts_entries:
  "consistent r h \<Longrightarrow> add_hosts r u g ks d h = (Inr d', h') \<Longrightarrow> advanced r h' H \<Longrightarrow>
   \<exists>es. map (\<lambda>k. case map_of g k of None \<Rightarrow> None | Some a \<Rightarrow> host_entry u H a) ks = map Some es
     \<and> (\<forall>e\<in>set es. py_hash (fst e) = Inr (fst (snd e)))
     \<and> all_hosts d' = all_hosts d @ map fst es
     \<and> map_of (meta_hostvars d') = map_of (meta_hostvars d) ++ map_of (rev (map snd es))
     \<and> (distinct (map fst (meta_hostvars d)) \<longrightarrow> distinct (map fst (meta_hostvars d')))"
proof (induction ks arbitrary: d h)
  case Nil
  then show ?case by simp
next
  case (Cons k ks)
  from Cons.prems(2) obtain a where a: "map_of g k = Some a"
    by (auto split: option.splits)
  obtain res1 h1 where step: "add_host_to_inventory r u d h a = (res1, h1)"
    by (cases "add_host_to_inventory r u d h a")
  with Cons.prems(2) a obtain d1 where res1: "res1 = Inr d1"
    and rest: "add_hosts r u g ks d1 h1 = (Inr d', h')"
    by (cases res1) auto
  note adv1 = add_host_advanced [OF Cons.prems(1) step]
  from add_hosts_advanced [OF _ rest] adv1 have "advanced r h1 h'" by blast
  with Cons.prems(3) have "advanced r h1 H" by (blast intro: advanced_trans)
  from add_host_stable [OF Cons.prems(1) step this] res1
  have "add_host_to_inventory r u d H a = (Inr d1, H)" by simp
  from host_entry_success [OF this] obtain n kk hv where
    e: "host_entry u H a = Some (n, kk, hv)" and hash: "py_hash n = Inr kk"
    and d1: "d1 = d\<lparr>meta_hostvars := AList.update kk hv (meta_hostvars d),
                    all_hosts := all_hosts d @ [n]\<rparr>"
    by blast
  from Cons.IH [OF _ rest Cons.prems(3)] adv1 obtain es where
    es: "map (\<lambda>k. case map_of g k of None \<Rightarrow> None | Some a \<Rightarrow> host_entry u H a) ks = map Some es"
    and hashes: "\<forall>e\<in>set es. py_hash (fst e) = Inr (fst (snd e))"
    and hosts: "all_hosts d' = all_hosts d1 @ map fst es"
    and vars: "map_of (meta_hostvars d') = map_of (meta_hostvars d1) ++ map_of (rev (map snd es))"
    and dist: "distinct (map fst (meta_hostvars d1)) \<longrightarrow> distinct (map fst (meta_hostvars d'))"
    by blast
  have "map_of (meta_hostvars d') =
      map_of (meta_hostvars d) ++ map_of (rev (map snd ((n, kk, hv) # es)))"
    by (simp add: vars d1 update_conv' map_add_upd_left)
  then show ?case
    using a e es hashes hash hosts dist
    by (intro exI [of _ "(n, kk, hv) # es"]) (simp add: d1 distinct_update)
qed

lemmas ex_dup_defs = ex_dup_instance_def ex_state_dup_def ex_dup_resources_def ex_dup_vm_def
  ex_dup_heap_def ex_dup_heap_resolved_def ex_dup_inventory_def

lemma ex_dup_extract: "extract_resources ex_state_dup [] = Inr (ex_dup_resources, ex_dup_heap)"
  by (simp add: ex_defs ex_dup_defs model_defs)

lemma ex_dup_build:
  "inventory ex_dup_resources False ex_dup_heap = (Inr ex_dup_inventory, ex_dup_heap_resolved)"
  by (simp add: ex_defs ex_dup_defs model_defs)

text \<open>
  Claim C4 fails as stated: two VMs named \<^verbatim>\<open>web1\<close> give \<^verbatim>\<open>all.hosts\<close> the name twice.
\<close>

theorem duplicate_host_names_counterexample:
  "build ex_state_dup False =
     Inr \<lparr>meta_hostvars = [(KStr ''web1'', [(''ansible_host'', JStr ''20.1.1.1''),
                                             (''ansible_user'', JStr ''azureuser'')])],
          all_hosts = [JStr ''web1'', JStr ''web1'']\<rparr>
   \<and> \<not> distinct [JStr ''web1'', JStr ''web1'']"
  using ex_dup_extract ex_dup_build by (simp add: build_def ex_dup_inventory_def)

text \<open>
  Claim C4, as amended. Let \<^verbatim>\<open>inventory()\<close> return a document for an extracted state.
  Every VM of the hosts group, in the group's iteration order, contributes one entry (its
  name, the key of its name, its host variables, all read from the final store). Then
  \<^verbatim>\<open>all.hosts\<close> is the list of the entries' names, so a name appears once for every VM
  that bears it; the keys of \<^verbatim>\<open>_meta.hostvars\<close> are distinct; the variables stored under
  a name are those of the last entry with that name; and every name of \<^verbatim>\<open>all.hosts\<close> has
  an entry in \<^verbatim>\<open>_meta.hostvars\<close>.
\<close>

theorem inventory_hosts_and_hostvars:
  assumes "extract_resources state [] = Inr (r, h)" and "inventory r u h = (Inr doc, h')"
  shows "\<exists>es. host_entries r u h' = map Some es
     \<and> all_hosts doc = map fst es
     \<and> (\<forall>e\<in>set es. py_hash (fst e) = Inr (fst (snd e)))
     \<and> map_of (meta_hostvars doc) = map_of (rev (map snd es))
     \<and> distinct (map fst (meta_hostvars doc))
     \<and> (\<forall>n\<in>set (all_hosts doc). \<exists>k. py_hash n = Inr k \<and> map_of (meta_hostvars doc) k \<noteq> None)"
proof -
  have cons: "consistent r h"
    using assms(1) by (intro unresolved_consistent extract_resources_fresh(2))
  have "\<exists>es. host_entries r u h' = map Some es
     \<and> all_hosts doc = map fst es
     \<and> (\<forall>e\<in>set es. py_hash (fst e) = Inr (fst (snd e)))
     \<and> map_of (meta_hostvars doc) = map_of (rev (map snd es))
     \<and> distinct (map fst (meta_hostvars doc))"
  proof (cases "map_of r ''hosts''")
    case None
    with assms(2) show ?thesis
      by (auto simp: inventory_def host_entries_def hosts_group_def empty_inventory_def)
  next
    case (Some g)
    with assms(2) have "add_hosts r u g (map fst g) empty_inventory h = (Inr doc, h')"
      by (simp add: inventory_def)
    from add_hosts_entries [OF cons this advanced_refl] Some show ?thesis
      by (auto simp: host_entries_def hosts_group_def empty_inventory_def)
  qed
  then obtain es where es: "host_entries r u h' = map Some es"
    "all_hosts doc = map fst es"
    "\<forall>e\<in>set es. py_hash (fst e) = Inr (fst (snd e))"
    "map_of (meta_hostvars doc) = map_of (rev (map snd es))"
    "distinct (map fst (meta_hostvars doc))"
    by blast
  have "\<exists>k. py_hash n = Inr k \<and> map_of (meta_hostvars doc) k \<noteq> None"
    if "n \<in> set (all_hosts doc)" for n
  proof -
    from that es(2) obtain e where e: "e \<in> set es" "n = fst e" by auto
    then have "fst (snd e) \<in> fst ` set (rev (map snd es))" by force
    then have "map_of (rev (map snd es)) (fst (snd e)) \<noteq> None"
      by (simp only: map_of_eq_None_iff not_not)
    with e es(3,4) show ?thesis by auto
  qed
  with es show ?thesis by blast
qed

theorem inventory_hosts_and_hostvars_witness:
  "\<exists>es. host_entries ex_dup_resources False ex_dup_heap_resolved = map Some es
     \<and> all_hosts ex_dup_inventory = map fst es
     \<and> map_of (meta_hostvars ex_dup_inventory) = map_of (rev (map snd es))
     \<and> distinct (map fst (meta_hostvars ex_dup_inventory))"
  using inventory_hosts_and_hostvars [OF ex_dup_extract ex_dup_build]
  by blast

section \<open>No store fault in a build\<close>

text \<open>
  \<open>StoreFault\<close> is never the outcome of a build: every address that the program follows
  holds an object of the class it expects there.
\<close>

lemma bind_result_eq_Inl:
  "(bind_result m f = Inl e) = (m = Inl e \<or> (\<exists>x. m = Inr x \<and> f x = Inl e))"
  by (cases m) simp_all

lemma getitem_str_no_fault: "getitem_str x k \<noteq> Inl StoreFault"
  by (cases x) (auto split: option.splits)

lemma getitem_0_no_fault: "getitem_0 x \<noteq> Inl StoreFault"
  by (cases x rule: getitem_0.cases) auto

lemma py_len_no_fault: "py_len x \<noteq> Inl StoreFault"
  by (cases x) auto

lemma py_hash_no_fault: "py_hash x \<noteq> Inl StoreFault"
  by (cases x) auto

lemma contains_str_no_fault: "contains_str k x \<noteq> Inl StoreFault"
  by (cases x) auto

lemma py_iter_no_fault: "py_iter x \<noteq> Inl StoreFault"
  by (cases x) auto

lemmas py_no_fault = getitem_str_no_fault getitem_0_no_fault py_len_no_fault py_hash_no_fault
  contains_str_no_fault py_iter_no_fault

lemma AzureResource_init_no_fault: "AzureResource_init x \<noteq> Inl StoreFault"
  by (auto simp: AzureResource_init_def bind_result_eq_Inl py_no_fault)

lemma construct_no_fault: "construct c x \<noteq> Inl StoreFault"
  by (cases c)
     (auto simp: AzureVM_init_def AzureIP_init_def AzureNIC_init_def bind_result_eq_Inl
        py_no_fault AzureResource_init_no_fault split: if_splits)

lemma add_instances_no_fault: "add_instances c xs g h \<noteq> Inl StoreFault"
  by (induction xs arbitrary: g h)
     (auto simp: bind_result_eq_Inl construct_no_fault py_no_fault)

lemma add_resources_to_group_no_fault: "add_resources_to_group g res c h \<noteq> Inl StoreFault"
  by (auto simp: add_resources_to_group_def bind_result_eq_Inl py_no_fault
      add_instances_no_fault split: if_splits)

lemma update_resource_group_no_fault: "update_resource_group td r res h \<noteq> Inl StoreFault"
  by (auto simp: update_resource_group_def Let_def bind_result_eq_Inl
      add_resources_to_group_no_fault)

lemma extract_loop_no_fault: "extract_loop xs r h \<noteq> Inl StoreFault"
  by (induction xs arbitrary: r h)
     (auto simp: bind_result_eq_Inl py_no_fault update_resource_group_no_fault
        split: option.splits)

lemma extract_resources_no_fault: "extract_resources state h \<noteq> Inl StoreFault"
  by (auto simp: extract_resources_def bind_result_eq_Inl py_no_fault extract_loop_no_fault
      split: if_splits)

lemma lookup_error_no_fault: "lookup_error r name ref \<noteq> Some StoreFault"
  by (auto simp: lookup_error_def py_no_fault split: option.splits sum.splits)

lemma holds_same_but_ref:
  assumes "list_all2 same_but_ref h h'" and "holds h c a"
  shows "holds h' c a"
proof -
  from assms(2) obtain x where x: "heap_get h a = Some x" "class_of x = c"
    by (auto simp: holds_def split: option.splits)
  with assms(1) have "a < length h'" "same_but_ref x (h' ! a)"
    by (auto simp: list_all2_conv_all_nth heap_get_def split: if_splits)
  moreover from this(2) have "class_of (h' ! a) = class_of x"
    by (cases x; cases "h' ! a") auto
  ultimately show ?thesis using x(2) by (simp add: holds_def heap_get_def)
qed

lemma wf_store_same_but_ref:
  "list_all2 same_but_ref h h' \<Longrightarrow> wf_store r h \<Longrightarrow> wf_store r h'"
  by (auto simp: wf_store_def wf_group_def list_all_iff holds_same_but_ref split: option.splits)

lemma group_target_holds:
  assumes "wf_store r h" and "group_target r name ref = Some n" and "alias_class name = Some c"
  shows "holds h c n"
proof -
  from assms(2) obtain g k where g: "map_of r name = Some g" and k: "map_of g k = Some n"
    by (auto simp: group_target_def split: option.splits sum.splits)
  from wf_store_group [OF assms(1) g assms(3)] map_of_SomeD [OF k] show ?thesis
    by (auto simp: wf_group_def list_all_iff)
qed

lemma alias_class_simps [simp]:
  "alias_class ''hosts'' = Some AzureVM"
  "alias_class ''nics'' = Some AzureNIC"
  "alias_class ''public_ip'' = Some AzureIP"
  by (simp_all add: alias_class_def resource_types_def)

lemma holds_NIC: "holds h AzureNIC n \<Longrightarrow> \<exists>c. heap_get h n = Some (NIC c)"
  by (auto simp: holds_def split: option.splits elim: class_of.elims)

lemma holds_VM: "holds h AzureVM a \<Longrightarrow> \<exists>v. heap_get h a = Some (VM v)"
  by (auto simp: holds_def split: option.splits elim: class_of.elims)

lemma holds_IP: "holds h AzureIP p \<Longrightarrow> \<exists>i. heap_get h p = Some (IP i)"
  by (auto simp: holds_def split: option.splits elim: class_of.elims)

lemma AzureNIC_lookup_no_fault:
  assumes "holds h AzureNIC n"
  shows "snd (AzureNIC_lookup r h n) \<noteq> Some StoreFault"
proof -
  from holds_NIC [OF assms] obtain c where "heap_get h n = Some (NIC c)" by blast
  then show ?thesis
    by (simp add: AzureNIC_lookup_alt lookup_error_no_fault split: option.splits)
qed

lemma AzureVM_lookup_no_fault:
  assumes "wf_store r h" and "holds h AzureVM a"
  shows "snd (AzureVM_lookup r h a) \<noteq> Some StoreFault"
proof -
  from holds_VM [OF assms(2)] obtain v where v: "heap_get h a = Some (VM v)" by blast
  show ?thesis
  proof (cases "group_target r ''nics'' (nic_id v)")
    case None
    with v show ?thesis by (simp add: AzureVM_lookup_alt lookup_error_no_fault)
  next
    case (Some n)
    from group_target_holds [OF assms(1) Some] have "holds h AzureNIC n" by simp
    moreover have "same_but_ref (VM v) (VM (v\<lparr>nic := Some n\<rparr>))" by simp
    from list_all2_same_but_ref_update [OF v this]
    have "list_all2 same_but_ref h (h[a := VM (v\<lparr>nic := Some n\<rparr>)])" .
    ultimately have "holds (h[a := VM (v\<lparr>nic := Some n\<rparr>)]) AzureNIC n"
      by (rule holds_same_but_ref [rotated])
    from AzureNIC_lookup_no_fault [OF this] v Some show ?thesis
      by (simp add: AzureVM_lookup_alt)
  qed
qed

lemma ansible_host_no_fault:
  assumes "wf_store r h" and "consistent r h" and "heap_get h a = Some (VM w)"
  shows "ansible_host u h w \<noteq> Inl StoreFault"
proof (cases "nic w")
  case None
  then show ?thesis by (simp add: ansible_host_def)
next
  case (Some n)
  with consistentD [OF assms(2,3)] have "group_target r ''nics'' (nic_id w) = Some n" by simp
  from group_target_holds [OF assms(1) this] have "holds h AzureNIC n" by simp
  from holds_NIC [OF this] obtain c where c: "heap_get h n = Some (NIC c)" by blast
  show ?thesis
  proof (cases "public_ip c")
    case None
    with Some c show ?thesis by (simp add: ansible_host_def)
  next
    case (Some p)
    with consistentD [OF assms(2) c] have "group_target r ''public_ip'' (public_ip_id c) = Some p"
      by simp
    from group_target_holds [OF assms(1) this] have "holds h AzureIP p" by simp
    from holds_IP [OF this] obtain i where "heap_get h p = Some (IP i)" by blast
    with \<open>nic w = Some n\<close> c Some show ?thesis by (simp add: ansible_host_def)
  qed
qed

lemma add_host_no_fault:
  assumes "wf_store r h" and "consistent r h" and "holds h AzureVM a"
    and "add_host_to_inventory r u d h a = (res, h1)"
  shows "res \<noteq> Inl StoreFault \<and> wf_store r h1 \<and> consistent r h1"
proof -
  obtain e where l: "AzureVM_lookup r h a = (h1, e)"
    using assms(4) add_host_heap [of r u d h a] by (metis prod.collapse snd_conv)
  from AzureVM_lookup_frame [OF l] have same: "list_all2 same_but_ref h h1" by simp
  then have wf1: "wf_store r h1" using assms(1) by (rule wf_store_same_but_ref)
  from AzureVM_lookup_advanced [OF assms(2) l] have c1: "consistent r h1" by simp
  from AzureVM_lookup_no_fault [OF assms(1,3)] l have e: "e \<noteq> Some StoreFault" by simp
  from holds_VM [OF holds_same_but_ref [OF same assms(3)]] obtain w where
    w: "heap_get h1 a = Some (VM w)" by blast
  have "res \<noteq> Inl StoreFault"
  proof (cases e)
    case None
    with assms(4) l w ansible_host_no_fault [OF wf1 c1 w, of u] show ?thesis
      by (auto simp: add_host_to_inventory_def bind_result_eq_Inl py_no_fault)
  next
    case (Some x)
    with assms(4) l e show ?thesis by (auto simp: add_host_to_inventory_def)
  qed
  with wf1 c1 show ?thesis by simp
qed

lemma add_hosts_no_fault:
  "wf_store r h \<Longrightarrow> consistent r h \<Longrightarrow> map_of r ''hosts'' = Some g \<Longrightarrow>
   fst (add_hosts r u g ks d h) \<noteq> Inl StoreFault"
proof (induction ks arbitrary: d h)
  case Nil
  then show ?case by simp
next
  case (Cons k ks)
  show ?case
  proof (cases "map_of g k")
    case None
    then show ?thesis by simp
  next
    case (Some a)
    from wf_store_group [OF Cons.prems(1,3)] map_of_SomeD [OF Some] have a: "holds h AzureVM a"
      by (auto simp: wf_group_def list_all_iff)
    obtain res1 h1 where step: "add_host_to_inventory r u d h a = (res1, h1)"
      by (cases "add_host_to_inventory r u d h a")
    from add_host_no_fault [OF Cons.prems(1,2) a step]
    have nf: "res1 \<noteq> Inl StoreFault" and wf1: "wf_store r h1" and c1: "consistent r h1"
      by simp_all
    show ?thesis
    proof (cases res1)
      case (Inl e)
      with Some step nf show ?thesis by simp
    next
      case (Inr d1)
      with Some step Cons.IH [OF wf1 c1 Cons.prems(3), of d1] show ?thesis by simp
    qed
  qed
qed

lemma build_no_store_fault: "build state u \<noteq> Inl StoreFault"
proof (cases "extract_resources state []")
  case (Inl e)
  with extract_resources_no_fault [of state "[]"] show ?thesis
    by (simp add: build_def)
next
  case (Inr rh)
  obtain r h where rh: "rh = (r, h)" by (cases rh)
  from Inr rh have ex: "extract_resources state [] = Inr (r, h)" by simp
  note wf = extract_resources_fresh(1) [OF ex]
  note cons = unresolved_consistent [OF extract_resources_fresh(2) [OF ex], of r]
  show ?thesis
  proof (cases "map_of r ''hosts''")
    case None
    with ex show ?thesis by (simp add: build_def inventory_def)
  next
    case (Some g)
    with ex add_hosts_no_fault [OF wf cons Some, of u "map fst g" empty_inventory]
    show ?thesis by (simp add: build_def inventory_def)
  qed
qed

end
